theory Spec2Isabelle
  imports Complex_Main "HOL-Library.Word"
begin

section \<open>The DEM solver of \<^verbatim>\<open>source/dem/dem.cc\<close>\<close>

text \<open>
  The theory embeds the constructor of \<^verbatim>\<open>DEMSolver<dim>\<close>, its load-balancing callback
  \<^verbatim>\<open>cell_weight\<close>, the helpers \<^verbatim>\<open>insert_particles\<close>, \<^verbatim>\<open>reinitialize_force\<close>,
  \<^verbatim>\<open>particle_wall_broad_search\<close>, \<^verbatim>\<open>particle_wall_fine_search\<close>,
  \<^verbatim>\<open>particle_wall_contact_force\<close>, the four \<^verbatim>\<open>set_...\<close> selectors and the timestep loop
  of \<^verbatim>\<open>solve\<close>. The template parameter \<^verbatim>\<open>dim\<close> is the ordinary argument \<open>ndim\<close> (the file
  instantiates it at 2 and 3).
\<close>

subsection \<open>\<^verbatim>\<open>fmod\<close> on unsigned arguments\<close>

text \<open>
  The cadence tests are written \<^verbatim>\<open>fmod(a, b) == c\<close> on unsigned integers (the step number
  is read into an \<^verbatim>\<open>unsigned int\<close> in \<^verbatim>\<open>write_output_results\<close>). An unsigned 32-bit
  value converts to \<^verbatim>\<open>double\<close> without rounding and the remainder of two such values is
  again exact, so the result is the integer remainder when the divisor is not zero. With
  a zero divisor \<^verbatim>\<open>fmod\<close> yields NaN, which compares unequal to every number: \<^verbatim>\<open>==\<close> is
  false and \<^verbatim>\<open>!=\<close> is true.
\<close>

datatype fmod_result = NaN | Finite nat

definition fmod :: "nat \<Rightarrow> nat \<Rightarrow> fmod_result" where
  "fmod x y = (if y = 0 then NaN else Finite (x mod y))"

text \<open>The comparison \<^verbatim>\<open>r == c\<close>.\<close>

definition fp_eq :: "fmod_result \<Rightarrow> nat \<Rightarrow> bool" where
  "fp_eq r c = (case r of NaN \<Rightarrow> False | Finite v \<Rightarrow> v = c)"

text \<open>The comparison \<^verbatim>\<open>r != c\<close>.\<close>

definition fp_ne :: "fmod_result \<Rightarrow> nat \<Rightarrow> bool" where
  "fp_ne r c = (case r of NaN \<Rightarrow> True | Finite v \<Rightarrow> v \<noteq> c)"

subsection \<open>Parameters\<close>

text \<open>
  The enumerations of the parameter file. The selectors of the solver end in an
  \<^verbatim>\<open>else\<close> branch for any value that is none of the two named ones; the third constructor
  of each type stands for such a value.
\<close>

datatype InsertionMethod = uniform | non_uniform | other_insertion_method nat

datatype IntegrationMethod = velocity_verlet | explicit_euler | other_integration_method nat

datatype PPContactForceModel = pp_linear | pp_nonlinear | other_pp_contact_force_model nat

datatype PWContactForceModel = pw_linear | pw_nonlinear | other_pw_contact_force_model nat

datatype MeshType = gmsh | dealii | other_mesh_type nat

record DEMSolverParameters =
  mesh_type :: MeshType
  insertion_info_insertion_method :: InsertionMethod
  insertion_info_insertion_frequency :: nat
  model_parameters_contact_detection_frequency :: nat
  model_parameters_repartition_frequency :: nat
  model_parameters_integration_method :: IntegrationMethod
  model_parameters_pp_contact_force_method :: PPContactForceModel
  model_parameters_pw_contact_force_method :: PWContactForceModel

subsection \<open>Errors\<close>

text \<open>
  The constructor and \<^verbatim>\<open>read_mesh\<close> throw \<^verbatim>\<open>std::runtime_error\<close>; the selectors throw a
  string literal; \<^verbatim>\<open>cell_weight\<close> ends in \<^verbatim>\<open>Assert(false, ExcInternalError())\<close>.
\<close>

datatype error = runtime_error string | thrown_literal string | ExcInternalError

subsection \<open>Particles\<close>

text \<open>
  A particle carries an identifier, the cell it lies in, a location and an array of
  properties indexed by \<^verbatim>\<open>DEM::PropertiesIndex\<close>. The source names six of the indices;
  every other slot of the array is \<open>other_property k\<close>. The values are \<^verbatim>\<open>double\<close>s; the
  solver itself only stores the literal 0 into them.
\<close>

datatype PropertiesIndex = force_x | force_y | force_z | M_x | M_y | M_z | other_property nat

record particle =
  particle_id :: nat
  surrounding_cell :: nat
  location :: "real list"
  properties :: "PropertiesIndex \<Rightarrow> real"

text \<open>The particle handler, as the range from \<^verbatim>\<open>begin()\<close> to \<^verbatim>\<open>end()\<close>.\<close>

type_synonym ParticleHandler = "particle list"

text \<open>The body of the loop of \<^verbatim>\<open>reinitialize_force\<close>, for one particle.\<close>

definition reinitialize_particle :: "nat \<Rightarrow> particle \<Rightarrow> particle" where
  "reinitialize_particle ndim p =
     (let particle_properties = properties p;
          particle_properties = particle_properties(force_x := 0);
          particle_properties = particle_properties(force_y := 0);
          particle_properties = particle_properties(M_x := 0);
          particle_properties = particle_properties(M_y := 0);
          particle_properties =
            (if ndim = 3
             then (particle_properties(force_z := 0))(M_z := 0)
             else particle_properties)
      in p\<lparr>properties := particle_properties\<rparr>)"

fun reinitialize_force :: "nat \<Rightarrow> ParticleHandler \<Rightarrow> ParticleHandler" where
  "reinitialize_force ndim [] = []"
| "reinitialize_force ndim (p # ps) = reinitialize_particle ndim p # reinitialize_force ndim ps"

subsection \<open>The load-balancing weight\<close>

datatype CellStatus = CELL_PERSIST | CELL_REFINE | CELL_COARSEN | CELL_INVALID

text \<open>
  A cell of the triangulation: whether this process owns it, and its children by index.
\<close>

record cell =
  cell_index :: nat
  is_locally_owned :: bool
  child_index_of :: "nat \<Rightarrow> nat"

text \<open>\<^verbatim>\<open>particle_handler.n_particles_in_cell(cell)\<close>, read into an \<^verbatim>\<open>unsigned int\<close>.\<close>

definition n_particles_in_cell :: "ParticleHandler \<Rightarrow> nat \<Rightarrow> 32 word" where
  "n_particles_in_cell particle_handler c =
     of_nat (length (filter (\<lambda>p. surrounding_cell p = c) particle_handler))"

definition max_children_per_cell :: "nat \<Rightarrow> nat" where
  "max_children_per_cell ndim = 2 ^ ndim"

definition particle_weight :: "32 word" where
  "particle_weight = 10000"

text \<open>
  The loop over the children of a coarsened cell, from \<open>child_index\<close> up to the bound,
  with the running count.
\<close>

function children_particles ::
  "ParticleHandler \<Rightarrow> cell \<Rightarrow> nat \<Rightarrow> nat \<Rightarrow> 32 word \<Rightarrow> 32 word" where
  "children_particles particle_handler c bound child_index n =
     (if child_index < bound
      then children_particles particle_handler c bound (Suc child_index)
             (n + n_particles_in_cell particle_handler (child_index_of c child_index))
      else n)"
  by pat_completeness auto
termination
  by (relation "measure (\<lambda>(h, c, bound, i, n). bound - i)") auto

declare children_particles.simps [simp del]

text \<open>
  \<^verbatim>\<open>Assert\<close> stops a debug build and is compiled out of a release build, where the
  function goes on to \<^verbatim>\<open>return 0\<close>.
\<close>

definition cell_weight ::
  "bool \<Rightarrow> nat \<Rightarrow> ParticleHandler \<Rightarrow> cell \<Rightarrow> CellStatus \<Rightarrow> error + 32 word" where
  "cell_weight debug ndim particle_handler c status =
     (if \<not> is_locally_owned c then Inr 0
      else if status = CELL_PERSIST \<or> status = CELL_REFINE
      then Inr (n_particles_in_cell particle_handler (cell_index c) * particle_weight)
      else if status = CELL_COARSEN
      then Inr (children_particles particle_handler c (max_children_per_cell ndim) 0 0
                 * particle_weight)
      else if debug then Inl ExcInternalError
      else Inr 0)"

subsection \<open>The solver object\<close>

text \<open>The concrete strategies behind the four owning pointers of the solver.\<close>

datatype Insertion = UniformInsertion | NonUniformInsertion

datatype Integrator = VelocityVerletIntegrator | ExplicitEulerIntegrator

datatype PPContactForce = PPLinearForce | PPNonLinearForce

datatype PWContactForce = PWLinearForce | PWNonLinearForce

text \<open>The containers that \<^verbatim>\<open>solve\<close> clears, fills or hands to its collaborators.\<close>

datatype cache =
    cells_local_neighbor_list | cells_ghost_neighbor_list
  | boundary_cells_with_faces | boundary_cells_with_lines | boundary_cells_with_points
  | boundary_cells_information
  | local_contact_pair_candidates | ghost_contact_pair_candidates | pw_contact_candidates
  | particle_point_contact_candidates | particle_line_contact_candidates
  | local_adjacent_particles | ghost_adjacent_particles | pw_pairs_in_contact
  | particle_points_in_contact | particle_lines_in_contact
  | particle_container | ghost_particle_container

text \<open>The functions that the constructor connects to the signals of the triangulation.\<close>

datatype callback =
    cell_weight_callback
  | register_store_callback_function
  | register_load_callback_function bool

text \<open>
  One constructor for each call that \<^verbatim>\<open>solve\<close> and its helpers make, in the order of
  their first appearance in the file. A call through one of the owning pointers records
  the pointer's value; the point and line force computation is one function called with
  the container it works on.
\<close>

datatype event =
    Print_initial_info
  | Read_msh | Generate_from_name_and_arguments | Refine_global
  | Find_cell_neighbors | Find_boundary_cells_information
  | Find_particle_point_and_line_contact_cells
  | Print_progression
  | Signal callback | Redistribute
  | Clear cache
  | Reinitialize_force
  | Insert "Insertion option"
  | Sort_particles_into_subdomains_and_cells
  | Exchange_ghost_particles
  | Find_PP_Contact_Pairs | Find_PW_Contact_Pairs
  | Find_Particle_Point_Contact_Pairs | Find_Particle_Line_Contact_Pairs
  | Localize_contacts | Locate_local_particles_in_cells | Locate_ghost_particles_in_cells
  | PP_Fine_Search | PW_Fine_Search | Particle_Point_Fine_Search | Particle_Line_Fine_Search
  | Calculate_pp_contact_force "PPContactForce option"
  | Calculate_pw_contact_force "PWContactForce option"
  | Calculate_particle_point_line_contact_force cache
  | Integrate "Integrator option"
  | Write_output_results
  | Finish_simulation

text \<open>
  The log of a run: each call with the particles of the handler as they are when the
  call is made.
\<close>

type_synonym trace = "(event \<times> ParticleHandler) list"

record solver =
  template_dim :: nat
  parameters :: DEMSolverParameters
  particle_handler :: ParticleHandler
  contact_detection_frequency :: nat
  repartition_frequency :: nat
  insertion_frequency :: nat
  cell_weight_signal :: "callback list"
  pre_distributed_repartition :: "callback list"
  post_distributed_repartition :: "callback list"
  insertion_object :: "Insertion option"
  integrator_object :: "Integrator option"
  pp_contact_force_object :: "PPContactForce option"
  pw_contact_force_object :: "PWContactForce option"
  log :: trace

text \<open>
  The constructor: the member initialisers, the check of the two cadences, and the three
  connections to the signals of the triangulation.
\<close>

definition DEMSolver :: "nat \<Rightarrow> DEMSolverParameters \<Rightarrow> error + solver" where
  "DEMSolver ndim dem_parameters =
     (let s = \<lparr>template_dim = ndim,
                parameters = dem_parameters,
                particle_handler = [],
                contact_detection_frequency =
                  model_parameters_contact_detection_frequency dem_parameters,
                repartition_frequency = model_parameters_repartition_frequency dem_parameters,
                insertion_frequency = insertion_info_insertion_frequency dem_parameters,
                cell_weight_signal = [],
                pre_distributed_repartition = [],
                post_distributed_repartition = [],
                insertion_object = None,
                integrator_object = None,
                pp_contact_force_object = None,
                pw_contact_force_object = None,
                log = []\<rparr>
      in if fp_ne (fmod (repartition_frequency s) (contact_detection_frequency s)) 0
         then Inl (runtime_error
           ''The repartition frequency must be a multiple of the contact detection frequency'')
         else Inr (s\<lparr>cell_weight_signal := cell_weight_signal s @ [cell_weight_callback],
                     pre_distributed_repartition :=
                       pre_distributed_repartition s @ [register_store_callback_function],
                     post_distributed_repartition :=
                       post_distributed_repartition s @ [register_load_callback_function False]\<rparr>))"

subsection \<open>Calls to collaborators\<close>

text \<open>
  The searches, force models, integrators, insertion strategies, the particle handler and
  the triangulation are collaborators of this file. What a call does to the particles of
  the handler is a parameter of the model: \<open>env e h\<close> is the handler after the call \<open>e\<close>
  made on the handler \<open>h\<close>.
\<close>

type_synonym collaborators = "event \<Rightarrow> ParticleHandler \<Rightarrow> ParticleHandler"

definition emit :: "event \<Rightarrow> solver \<Rightarrow> solver" where
  "emit e s = s\<lparr>log := log s @ [(e, particle_handler s)]\<rparr>"

definition call :: "collaborators \<Rightarrow> event \<Rightarrow> solver \<Rightarrow> solver" where
  "call env e s = (emit e s)\<lparr>particle_handler := env e (particle_handler s)\<rparr>"

text \<open>
  \<^verbatim>\<open>triangulation.repartition()\<close> of the library: the slots of the signal
  \<^verbatim>\<open>pre_distributed_repartition\<close> run, the cells are redistributed, and the slots of
  \<^verbatim>\<open>post_distributed_repartition\<close> run.
\<close>

fun fire :: "collaborators \<Rightarrow> callback list \<Rightarrow> solver \<Rightarrow> solver" where
  "fire env [] s = s"
| "fire env (cb # cbs) s = fire env cbs (call env (Signal cb) s)"

definition repartition :: "collaborators \<Rightarrow> solver \<Rightarrow> solver" where
  "repartition env s =
     (let s = fire env (pre_distributed_repartition s) s;
          s = call env Redistribute s;
          s = fire env (post_distributed_repartition s) s
      in s)"

subsection \<open>The helpers of \<^verbatim>\<open>solve\<close>\<close>

definition read_mesh :: "collaborators \<Rightarrow> solver \<Rightarrow> error + solver" where
  "read_mesh env s =
     (if mesh_type (parameters s) = gmsh
      then Inr (call env Refine_global (call env Read_msh s))
      else if mesh_type (parameters s) = dealii
      then Inr (call env Refine_global (call env Generate_from_name_and_arguments s))
      else Inl (runtime_error ''Unsupported mesh type - mesh will not be created''))"

text \<open>The simulation control, as one iteration of the loop sees it.\<close>

record tick =
  step_number :: nat
  is_output_iteration :: bool

text \<open>
  \<^verbatim>\<open>insert_particles\<close> calls the insertion strategy through the owning pointer
  \<^verbatim>\<open>insertion_object\<close>, which \<^verbatim>\<open>solve\<close> sets before its loop; the event records the value
  of the pointer. The source has no defined behaviour for a call through a null pointer,
  and the model gives none a meaning: what is proved of \<open>insert_particles\<close> below
  assumes the pointer set, as it is whenever \<^verbatim>\<open>solve\<close> calls the function.
\<close>

definition insert_particles :: "collaborators \<Rightarrow> tick \<Rightarrow> solver \<Rightarrow> bool \<times> solver" where
  "insert_particles env t s =
     (if fp_eq (fmod (step_number t) (insertion_frequency s)) 1
      then (True, call env (Insert (insertion_object s)) s)
      else (False, s))"

definition particle_wall_broad_search :: "collaborators \<Rightarrow> solver \<Rightarrow> solver" where
  "particle_wall_broad_search env s =
     (let s = call env Find_PW_Contact_Pairs s;
          s = call env Find_Particle_Point_Contact_Pairs s
      in if template_dim s = 3 then call env Find_Particle_Line_Contact_Pairs s else s)"

definition particle_wall_fine_search :: "collaborators \<Rightarrow> solver \<Rightarrow> solver" where
  "particle_wall_fine_search env s =
     (let s = call env PW_Fine_Search s;
          s = call env Particle_Point_Fine_Search s
      in if template_dim s = 3 then call env Particle_Line_Fine_Search s else s)"

definition particle_wall_contact_force :: "collaborators \<Rightarrow> solver \<Rightarrow> solver" where
  "particle_wall_contact_force env s =
     (let s = call env (Calculate_pw_contact_force (pw_contact_force_object s)) s;
          s = call env (Calculate_particle_point_line_contact_force particle_points_in_contact) s
      in if template_dim s = 3
         then call env
                (Calculate_particle_point_line_contact_force particle_lines_in_contact) s
         else s)"

definition finish_simulation :: "collaborators \<Rightarrow> solver \<Rightarrow> solver" where
  "finish_simulation env s = call env Finish_simulation s"

definition set_insertion_type ::
  "DEMSolverParameters \<Rightarrow> solver \<Rightarrow> error + Insertion option \<times> solver" where
  "set_insertion_type p s =
     (if insertion_info_insertion_method p = uniform
      then Inr (Some UniformInsertion, s\<lparr>insertion_object := Some UniformInsertion\<rparr>)
      else if insertion_info_insertion_method p = non_uniform
      then Inr (Some NonUniformInsertion, s\<lparr>insertion_object := Some NonUniformInsertion\<rparr>)
      else Inl (thrown_literal ''The chosen insertion method is invalid''))"

definition set_integrator_type ::
  "DEMSolverParameters \<Rightarrow> solver \<Rightarrow> error + Integrator option \<times> solver" where
  "set_integrator_type p s =
     (if model_parameters_integration_method p = velocity_verlet
      then Inr (Some VelocityVerletIntegrator,
                s\<lparr>integrator_object := Some VelocityVerletIntegrator\<rparr>)
      else if model_parameters_integration_method p = explicit_euler
      then Inr (Some ExplicitEulerIntegrator,
                s\<lparr>integrator_object := Some ExplicitEulerIntegrator\<rparr>)
      else Inl (thrown_literal ''The chosen integration method is invalid''))"

definition set_pp_contact_force ::
  "DEMSolverParameters \<Rightarrow> solver \<Rightarrow> error + PPContactForce option \<times> solver" where
  "set_pp_contact_force p s =
     (if model_parameters_pp_contact_force_method p = pp_linear
      then Inr (Some PPLinearForce, s\<lparr>pp_contact_force_object := Some PPLinearForce\<rparr>)
      else if model_parameters_pp_contact_force_method p = pp_nonlinear
      then Inr (Some PPNonLinearForce, s\<lparr>pp_contact_force_object := Some PPNonLinearForce\<rparr>)
      else Inl (thrown_literal
             ''The chosen particle-particle contact force model is invalid''))"

definition set_pw_contact_force ::
  "DEMSolverParameters \<Rightarrow> solver \<Rightarrow> error + PWContactForce option \<times> solver" where
  "set_pw_contact_force p s =
     (if model_parameters_pw_contact_force_method p = pw_linear
      then Inr (Some PWLinearForce, s\<lparr>pw_contact_force_object := Some PWLinearForce\<rparr>)
      else if model_parameters_pw_contact_force_method p = pw_nonlinear
      then Inr (Some PWNonLinearForce, s\<lparr>pw_contact_force_object := Some PWNonLinearForce\<rparr>)
      else Inl (thrown_literal ''The chosen particle-wall contact force model is invalid''))"

subsection \<open>One iteration of the loop of \<^verbatim>\<open>solve\<close>\<close>

text \<open>
  The body of \<^verbatim>\<open>while (simulation_control->integrate())\<close>, statement by statement. The
  step number does not change within the body.
\<close>

definition timestep :: "collaborators \<Rightarrow> tick \<Rightarrow> solver \<Rightarrow> solver" where
  "timestep env t s =
     (let s = call env Print_progression s;
          s = (if fp_eq (fmod (step_number t) (repartition_frequency s)) 0
               then (let s = repartition env s;
                         s = emit (Clear cells_local_neighbor_list) s;
                         s = emit (Clear cells_ghost_neighbor_list) s;
                         s = emit (Clear boundary_cells_with_faces) s;
                         s = emit (Clear boundary_cells_with_lines) s;
                         s = emit (Clear boundary_cells_with_points) s;
                         s = emit (Clear boundary_cells_information) s;
                         s = call env Find_cell_neighbors s;
                         s = call env Find_boundary_cells_information s;
                         s = call env Find_particle_point_and_line_contact_cells s
                     in s)
               else s);
          s = (emit Reinitialize_force s)
                \<lparr>particle_handler := reinitialize_force (template_dim s) (particle_handler s)\<rparr>;
          r = insert_particles env t s;
          particles_were_inserted = fst r;
          s = snd r;
          s = (if particles_were_inserted
                  \<or> fp_eq (fmod (step_number t) (contact_detection_frequency s)) 0
               then call env Sort_particles_into_subdomains_and_cells s else s);
          s = call env Exchange_ghost_particles s;
          s = (if particles_were_inserted
                  \<or> fp_eq (fmod (step_number t) (contact_detection_frequency s)) 0
               then call env Find_PP_Contact_Pairs s else s);
          s = (if particles_were_inserted
                  \<or> fp_eq (fmod (step_number t) (contact_detection_frequency s)) 0
               then particle_wall_broad_search env s else s);
          s = (if particles_were_inserted
                  \<or> fp_eq (fmod (step_number t) (contact_detection_frequency s)) 0
               then call env Localize_contacts s else s);
          s = (if particles_were_inserted
                  \<or> fp_eq (fmod (step_number t) (contact_detection_frequency s)) 0
               then call env Locate_local_particles_in_cells s
               else call env Locate_ghost_particles_in_cells s);
          s = (if particles_were_inserted
                  \<or> fp_eq (fmod (step_number t) (contact_detection_frequency s)) 0
               then call env PP_Fine_Search s else s);
          s = call env (Calculate_pp_contact_force (pp_contact_force_object s)) s;
          s = (if particles_were_inserted
                  \<or> fp_eq (fmod (step_number t) (contact_detection_frequency s)) 0
               then particle_wall_fine_search env s else s);
          s = particle_wall_contact_force env s;
          s = call env (Integrate (integrator_object s)) s;
          s = (if is_output_iteration t then call env Write_output_results s else s)
      in s)"

text \<open>
  The loop, over the iterations for which \<^verbatim>\<open>integrate()\<close> returns true: the solver after
  the last one, and the log of every iteration.
\<close>

fun solve_loop :: "collaborators \<Rightarrow> solver \<Rightarrow> tick list \<Rightarrow> solver \<times> trace list" where
  "solve_loop env s [] = (s, [])"
| "solve_loop env s (t # ts) =
     (let s1 = timestep env t (s\<lparr>log := []\<rparr>);
          r = solve_loop env s1 ts
      in (fst r, log s1 # snd r))"

subsection \<open>\<^verbatim>\<open>solve\<close>\<close>

text \<open>
  A run of \<^verbatim>\<open>solve\<close>: the exception that left it, if any; the log of what ran before
  the loop; the log of each timestep; the log of what ran after the loop; the solver at
  the end.
\<close>

record run =
  thrown :: "error option"
  startup :: trace
  timesteps :: "trace list"
  shutdown :: trace
  final :: solver

definition aborted :: "error \<Rightarrow> solver \<Rightarrow> run" where
  "aborted e s = \<lparr>thrown = Some e, startup = log s, timesteps = [], shutdown = [], final = s\<rparr>"

definition solve :: "collaborators \<Rightarrow> tick list \<Rightarrow> solver \<Rightarrow> run" where
  "solve env ticks s =
     (let s = call env Print_initial_info s in
      case read_mesh env s of Inl e \<Rightarrow> aborted e s
      | Inr s \<Rightarrow>
     (let s = call env Find_cell_neighbors s;
          s = call env Find_boundary_cells_information s;
          s = call env Find_particle_point_and_line_contact_cells s in
      case set_insertion_type (parameters s) s of Inl e \<Rightarrow> aborted e s
      | Inr r \<Rightarrow>
     (let s = (snd r)\<lparr>insertion_object := fst r\<rparr> in
      case set_integrator_type (parameters s) s of Inl e \<Rightarrow> aborted e s
      | Inr r \<Rightarrow>
     (let s = (snd r)\<lparr>integrator_object := fst r\<rparr> in
      case set_pp_contact_force (parameters s) s of Inl e \<Rightarrow> aborted e s
      | Inr r \<Rightarrow>
     (let s = (snd r)\<lparr>pp_contact_force_object := fst r\<rparr> in
      case set_pw_contact_force (parameters s) s of Inl e \<Rightarrow> aborted e s
      | Inr r \<Rightarrow>
     (let s = (snd r)\<lparr>pw_contact_force_object := fst r\<rparr>;
          l = solve_loop env s ticks;
          s1 = finish_simulation env ((fst l)\<lparr>log := []\<rparr>)
      in \<lparr>thrown = None, startup = log s, timesteps = snd l, shutdown = log s1,
          final = s1\<rparr>))))))"

text \<open>
  A program reaches \<^verbatim>\<open>solve\<close> only on a solver that its constructor has returned.
\<close>

definition construct_and_solve ::
  "collaborators \<Rightarrow> tick list \<Rightarrow> nat \<Rightarrow> DEMSolverParameters \<Rightarrow> error + run" where
  "construct_and_solve env ticks ndim dem_parameters =
     (case DEMSolver ndim dem_parameters of
        Inl e \<Rightarrow> Inl e
      | Inr s \<Rightarrow> Inr (solve env ticks s))"

subsection \<open>Example inputs\<close>

definition example_parameters :: "nat \<Rightarrow> nat \<Rightarrow> nat \<Rightarrow> DEMSolverParameters" where
  "example_parameters C R F =
     \<lparr>mesh_type = dealii,
      insertion_info_insertion_method = uniform,
      insertion_info_insertion_frequency = F,
      model_parameters_contact_detection_frequency = C,
      model_parameters_repartition_frequency = R,
      model_parameters_integration_method = velocity_verlet,
      model_parameters_pp_contact_force_method = pp_linear,
      model_parameters_pw_contact_force_method = pw_linear\<rparr>"

text \<open>A particle in cell 0 whose every property is 1.\<close>

definition example_particle :: particle where
  "example_particle =
     \<lparr>particle_id = 7, surrounding_cell = 0, location = [0, 0, 0], properties = (\<lambda>k. 1)\<rparr>"

text \<open>A locally owned cell with index 0 whose children have the indices 1, 2, ...\<close>

definition example_cell :: cell where
  "example_cell = \<lparr>cell_index = 0, is_locally_owned = True, child_index_of = Suc\<rparr>"

text \<open>
  The solver that the constructor returns for given cadences, with a handler of the given
  particles.
\<close>

definition example_solver :: "nat \<Rightarrow> nat \<Rightarrow> nat \<Rightarrow> nat \<Rightarrow> ParticleHandler \<Rightarrow> solver" where
  "example_solver ndim C R F h =
     \<lparr>template_dim = ndim,
      parameters = example_parameters C R F,
      particle_handler = h,
      contact_detection_frequency = C,
      repartition_frequency = R,
      insertion_frequency = F,
      cell_weight_signal = [cell_weight_callback],
      pre_distributed_repartition = [register_store_callback_function],
      post_distributed_repartition = [register_load_callback_function False],
      insertion_object = None,
      integrator_object = None,
      pp_contact_force_object = None,
      pw_contact_force_object = None,
      log = []\<rparr>"

text \<open>The claim C6 in its own words: the particles of the cell times the constant.\<close>

definition claimed_cell_weight :: "ParticleHandler \<Rightarrow> cell \<Rightarrow> nat" where
  "claimed_cell_weight h c =
     length (filter (\<lambda>p. surrounding_cell p = cell_index c) h) * 10000"

subsection \<open>The solver at the head of the loop\<close>

text \<open>
  The strategies that the selectors of \<^verbatim>\<open>solve\<close> choose for given parameters, \<open>None\<close>
  where they throw.
\<close>

definition chosen_insertion :: "DEMSolverParameters \<Rightarrow> Insertion option" where
  "chosen_insertion p =
     (case insertion_info_insertion_method p of
        uniform \<Rightarrow> Some UniformInsertion
      | non_uniform \<Rightarrow> Some NonUniformInsertion
      | other_insertion_method k \<Rightarrow> None)"

definition chosen_integrator :: "DEMSolverParameters \<Rightarrow> Integrator option" where
  "chosen_integrator p =
     (case model_parameters_integration_method p of
        velocity_verlet \<Rightarrow> Some VelocityVerletIntegrator
      | explicit_euler \<Rightarrow> Some ExplicitEulerIntegrator
      | other_integration_method k \<Rightarrow> None)"

definition chosen_pp_contact_force :: "DEMSolverParameters \<Rightarrow> PPContactForce option" where
  "chosen_pp_contact_force p =
     (case model_parameters_pp_contact_force_method p of
        pp_linear \<Rightarrow> Some PPLinearForce
      | pp_nonlinear \<Rightarrow> Some PPNonLinearForce
      | other_pp_contact_force_model k \<Rightarrow> None)"

definition chosen_pw_contact_force :: "DEMSolverParameters \<Rightarrow> PWContactForce option" where
  "chosen_pw_contact_force p =
     (case model_parameters_pw_contact_force_method p of
        pw_linear \<Rightarrow> Some PWLinearForce
      | pw_nonlinear \<Rightarrow> Some PWNonLinearForce
      | other_pw_contact_force_model k \<Rightarrow> None)"

text \<open>
  What holds of the solver whenever the loop tests \<^verbatim>\<open>integrate()\<close>: the members set by
  the constructor, whose cadence check has passed, and the four strategies set by
  \<^verbatim>\<open>solve\<close>.
\<close>

definition ready :: "nat \<Rightarrow> DEMSolverParameters \<Rightarrow> solver \<Rightarrow> bool" where
  "ready ndim p s =
     (template_dim s = ndim \<and> parameters s = p
      \<and> contact_detection_frequency s = model_parameters_contact_detection_frequency p
      \<and> repartition_frequency s = model_parameters_repartition_frequency p
      \<and> insertion_frequency s = insertion_info_insertion_frequency p
      \<and> cell_weight_signal s = [cell_weight_callback]
      \<and> pre_distributed_repartition s = [register_store_callback_function]
      \<and> post_distributed_repartition s = [register_load_callback_function False]
      \<and> fp_eq (fmod (repartition_frequency s) (contact_detection_frequency s)) 0
      \<and> insertion_object s = chosen_insertion p
      \<and> integrator_object s = chosen_integrator p
      \<and> pp_contact_force_object s = chosen_pp_contact_force p
      \<and> pw_contact_force_object s = chosen_pw_contact_force p)"

text \<open>
  The calls of one iteration in closed form, given the outcome of the three cadence
  tests and of \<^verbatim>\<open>is_output_iteration()\<close>. The lemma \<open>timestep_events\<close> below proves that
  \<open>timestep\<close> makes exactly these calls.
\<close>

definition step_calls ::
  "nat \<Rightarrow> DEMSolverParameters \<Rightarrow> bool \<Rightarrow> bool \<Rightarrow> bool \<Rightarrow> bool \<Rightarrow> event list" where
  "step_calls ndim p rep ins cad out =
     [Print_progression]
     @ (if rep
        then [Signal register_store_callback_function, Redistribute,
              Signal (register_load_callback_function False),
              Clear cells_local_neighbor_list, Clear cells_ghost_neighbor_list,
              Clear boundary_cells_with_faces, Clear boundary_cells_with_lines,
              Clear boundary_cells_with_points, Clear boundary_cells_information,
              Find_cell_neighbors, Find_boundary_cells_information,
              Find_particle_point_and_line_contact_cells]
        else [])
     @ [Reinitialize_force]
     @ (if ins then [Insert (chosen_insertion p)] else [])
     @ (if ins \<or> cad then [Sort_particles_into_subdomains_and_cells] else [])
     @ [Exchange_ghost_particles]
     @ (if ins \<or> cad
        then [Find_PP_Contact_Pairs, Find_PW_Contact_Pairs, Find_Particle_Point_Contact_Pairs]
             @ (if ndim = 3 then [Find_Particle_Line_Contact_Pairs] else [])
             @ [Localize_contacts, Locate_local_particles_in_cells, PP_Fine_Search]
        else [Locate_ghost_particles_in_cells])
     @ [Calculate_pp_contact_force (chosen_pp_contact_force p)]
     @ (if ins \<or> cad
        then [PW_Fine_Search, Particle_Point_Fine_Search]
             @ (if ndim = 3 then [Particle_Line_Fine_Search] else [])
        else [])
     @ [Calculate_pw_contact_force (chosen_pw_contact_force p),
        Calculate_particle_point_line_contact_force particle_points_in_contact]
     @ (if ndim = 3
        then [Calculate_particle_point_line_contact_force particle_lines_in_contact]
        else [])
     @ [Integrate (chosen_integrator p)]
     @ (if out then [Write_output_results] else [])"

text \<open>
  The first exception that \<^verbatim>\<open>solve\<close> meets before its loop, in the order of the source:
  the mesh type, then the four selectors.
\<close>

definition configuration_error :: "DEMSolverParameters \<Rightarrow> error option" where
  "configuration_error p =
     (if mesh_type p \<noteq> gmsh \<and> mesh_type p \<noteq> dealii
      then Some (runtime_error ''Unsupported mesh type - mesh will not be created'')
      else if chosen_insertion p = None
      then Some (thrown_literal ''The chosen insertion method is invalid'')
      else if chosen_integrator p = None
      then Some (thrown_literal ''The chosen integration method is invalid'')
      else if chosen_pp_contact_force p = None
      then Some (thrown_literal ''The chosen particle-particle contact force model is invalid'')
      else if chosen_pw_contact_force p = None
      then Some (thrown_literal ''The chosen particle-wall contact force model is invalid'')
      else None)"

subsection \<open>Phases of a timestep\<close>

text \<open>
  The vocabulary of the claims about the order of a timestep: the phase that a call
  belongs to and the kind of contact it works on.
\<close>

datatype phase = broad_search | fine_search | contact_force | integration

datatype contact_kind = particle_particle | particle_wall | particle_point | particle_line

definition phase_of :: "event \<Rightarrow> phase option" where
  "phase_of e =
     (case e of
        Find_PP_Contact_Pairs \<Rightarrow> Some broad_search
      | Find_PW_Contact_Pairs \<Rightarrow> Some broad_search
      | Find_Particle_Point_Contact_Pairs \<Rightarrow> Some broad_search
      | Find_Particle_Line_Contact_Pairs \<Rightarrow> Some broad_search
      | PP_Fine_Search \<Rightarrow> Some fine_search
      | PW_Fine_Search \<Rightarrow> Some fine_search
      | Particle_Point_Fine_Search \<Rightarrow> Some fine_search
      | Particle_Line_Fine_Search \<Rightarrow> Some fine_search
      | Calculate_pp_contact_force m \<Rightarrow> Some contact_force
      | Calculate_pw_contact_force m \<Rightarrow> Some contact_force
      | Calculate_particle_point_line_contact_force c \<Rightarrow> Some contact_force
      | Integrate m \<Rightarrow> Some integration
      | _ \<Rightarrow> None)"

definition kind_of :: "event \<Rightarrow> contact_kind option" where
  "kind_of e =
     (case e of
        Find_PP_Contact_Pairs \<Rightarrow> Some particle_particle
      | Find_PW_Contact_Pairs \<Rightarrow> Some particle_wall
      | Find_Particle_Point_Contact_Pairs \<Rightarrow> Some particle_point
      | Find_Particle_Line_Contact_Pairs \<Rightarrow> Some particle_line
      | PP_Fine_Search \<Rightarrow> Some particle_particle
      | PW_Fine_Search \<Rightarrow> Some particle_wall
      | Particle_Point_Fine_Search \<Rightarrow> Some particle_point
      | Particle_Line_Fine_Search \<Rightarrow> Some particle_line
      | Calculate_pp_contact_force m \<Rightarrow> Some particle_particle
      | Calculate_pw_contact_force m \<Rightarrow> Some particle_wall
      | Calculate_particle_point_line_contact_force c \<Rightarrow>
          (if c = particle_points_in_contact then Some particle_point
           else if c = particle_lines_in_contact then Some particle_line
           else None)
      | _ \<Rightarrow> None)"

definition phase_rank :: "phase \<Rightarrow> nat" where
  "phase_rank ph =
     (case ph of broad_search \<Rightarrow> 0 | fine_search \<Rightarrow> 1 | contact_force \<Rightarrow> 2 | integration \<Rightarrow> 3)"

text \<open>
  The ghost particles are exchanged, and no force is computed before that.
\<close>

definition ghosts_exchanged_before_force :: "event list \<Rightarrow> bool" where
  "ghosts_exchanged_before_force evs =
     (Exchange_ghost_particles \<in> set evs
      \<and> list_all (\<lambda>e. phase_of e \<noteq> Some contact_force)
          (takeWhile (\<lambda>e. e \<noteq> Exchange_ghost_particles) evs))"

text \<open>
  The order that C2 states: over all calls of a timestep, broad search, then fine search,
  then force, then integration, and the ghost exchange before any force.
\<close>

definition claimed_phase_order :: "event list \<Rightarrow> bool" where
  "claimed_phase_order evs =
     (sorted (map phase_rank (List.map_filter phase_of evs))
      \<and> ghosts_exchanged_before_force evs)"

text \<open>
  The phases of a timestep as one kind of contact sees them: every broad search, the
  fine search and the force of that kind, and the integration.
\<close>

definition phase_of_kind :: "contact_kind \<Rightarrow> event \<Rightarrow> phase option" where
  "phase_of_kind k e =
     (if phase_of e = Some fine_search \<or> phase_of e = Some contact_force
      then (if kind_of e = Some k then phase_of e else None)
      else phase_of e)"

definition phase_order_of_kind :: "contact_kind \<Rightarrow> event list \<Rightarrow> bool" where
  "phase_order_of_kind k evs = sorted (map phase_rank (List.map_filter (phase_of_kind k) evs))"

definition is_insert :: "event \<Rightarrow> bool" where
  "is_insert e = (case e of Insert m \<Rightarrow> True | _ \<Rightarrow> False)"

text \<open>
  The force and torque slots that \<^verbatim>\<open>reinitialize_force\<close> writes are zero in every
  particle.
\<close>

definition forces_reset :: "nat \<Rightarrow> ParticleHandler \<Rightarrow> bool" where
  "forces_reset ndim h =
     list_all (\<lambda>q. properties q force_x = 0 \<and> properties q force_y = 0
                  \<and> properties q M_x = 0 \<and> properties q M_y = 0
                  \<and> (ndim = 3 \<longrightarrow> properties q force_z = 0 \<and> properties q M_z = 0)) h"

text \<open>
  In the log of a timestep, no insertion, search, force computation or integration comes
  before the reset of the forces, and the call that follows the reset sees as many
  particles as the reset was given, with the same identifiers in the same order, each
  with its force and torque slots at zero.
\<close>

definition reset_comes_first :: "nat \<Rightarrow> trace \<Rightarrow> bool" where
  "reset_comes_first ndim tr =
     (let before = takeWhile (\<lambda>x. fst x \<noteq> Reinitialize_force) tr;
          rest = dropWhile (\<lambda>x. fst x \<noteq> Reinitialize_force) tr
      in list_all (\<lambda>x. \<not> is_insert (fst x) \<and> phase_of (fst x) = None) before
         \<and> 2 \<le> length rest
         \<and> length (snd (rest ! 1)) = length (snd (rest ! 0))
         \<and> map particle_id (snd (rest ! 1)) = map particle_id (snd (rest ! 0))
         \<and> forces_reset ndim (snd (rest ! 1)))"

subsection \<open>The containers of a timestep\<close>










text \<open>Collaborators that leave the particles as they are, and an iteration.\<close>

definition no_effect :: collaborators where
  "no_effect e h = h"

definition example_tick :: "nat \<Rightarrow> bool \<Rightarrow> tick" where
  "example_tick n out = \<lparr>step_number = n, is_output_iteration = out\<rparr>"

text \<open>
  Collaborators whose insertion adds one particle, and parameters with an insertion
  method that is none of the two named ones.
\<close>

definition example_collaborators :: collaborators where
  "example_collaborators e h = (case e of Insert m \<Rightarrow> example_particle # h | _ \<Rightarrow> h)"

definition other_insertion_parameters :: DEMSolverParameters where
  "other_insertion_parameters =
     (example_parameters 2 2 2)\<lparr>insertion_info_insertion_method := other_insertion_method 5\<rparr>"

text \<open>
  The solver of \<open>example_solver\<close> with the four strategies that \<^verbatim>\<open>solve\<close> sets for
  \<open>example_parameters\<close>.
\<close>

definition example_loop_solver ::
  "nat \<Rightarrow> nat \<Rightarrow> nat \<Rightarrow> nat \<Rightarrow> ParticleHandler \<Rightarrow> solver" where
  "example_loop_solver ndim C R F h =
     (example_solver ndim C R F h)
       \<lparr>insertion_object := Some UniformInsertion,
        integrator_object := Some VelocityVerletIntegrator,
        pp_contact_force_object := Some PPLinearForce,
        pw_contact_force_object := Some PWLinearForce\<rparr>"

section \<open>Properties\<close>

subsection \<open>The cadence check of the constructor\<close>

lemma fp_ne_fmod_0: "fp_ne (fmod x y) 0 = (y = 0 \<or> x mod y \<noteq> 0)"
  by (simp add: fmod_def fp_ne_def)

lemma fp_eq_fmod: "fp_eq (fmod x y) c = (y \<noteq> 0 \<and> x mod y = c)"
  by (simp add: fmod_def fp_eq_def)

text \<open>
  C1, as stated, at the detection cadence 0 and the repartition cadence 0: the
  repartition cadence is an integer multiple of the detection cadence, and the
  constructor throws all the same, since \<^verbatim>\<open>fmod(0, 0)\<close> is NaN and \<^verbatim>\<open>NaN != 0\<close> holds.
\<close>

theorem C1_zero_cadences_rejected:
  "model_parameters_contact_detection_frequency (example_parameters 0 0 1)
      dvd model_parameters_repartition_frequency (example_parameters 0 0 1)
   \<and> DEMSolver 3 (example_parameters 0 0 1) = Inl (runtime_error
       ''The repartition frequency must be a multiple of the contact detection frequency'')"
  by (simp add: example_parameters_def DEMSolver_def fmod_def fp_ne_def)

text \<open>
  C1, amended: when the contact detection frequency \<open>C\<close> is 0, or the repartition
  frequency \<open>R\<close> is not an integer multiple of \<open>C\<close>, the constructor throws the runtime
  error that names the rule, and a program that constructs the solver and then calls
  \<^verbatim>\<open>solve\<close> ends with that error without a run of \<^verbatim>\<open>solve\<close>, hence without a timestep.
  When \<open>C\<close> is positive and \<open>R mod C = 0\<close>, the constructor returns a solver and
  \<^verbatim>\<open>solve\<close> runs on it.
\<close>

theorem C1_cadence_check:
  "(let C = model_parameters_contact_detection_frequency p;
        R = model_parameters_repartition_frequency p;
        e = runtime_error
          ''The repartition frequency must be a multiple of the contact detection frequency''
    in (C = 0 \<or> \<not> C dvd R \<longrightarrow>
          DEMSolver ndim p = Inl e \<and> construct_and_solve env ticks ndim p = Inl e)
     \<and> (0 < C \<and> R mod C = 0 \<longrightarrow>
          (\<exists>s. DEMSolver ndim p = Inr s
              \<and> construct_and_solve env ticks ndim p = Inr (solve env ticks s))))"
  by (auto simp add: DEMSolver_def fp_ne_fmod_0 Let_def construct_and_solve_def
        mod_eq_0_iff_dvd)

theorem C1_cadence_check_witness:
  "construct_and_solve (\<lambda>e h. h) [\<lparr>step_number = 1, is_output_iteration = False\<rparr>] 3
       (example_parameters 2 5 1)
     = Inl (runtime_error
         ''The repartition frequency must be a multiple of the contact detection frequency'')
   \<and> (\<exists>s. DEMSolver 3 (example_parameters 2 4 1) = Inr s)"
  using C1_cadence_check [of "example_parameters 2 5 1" 3 "\<lambda>e h. h"
           "[\<lparr>step_number = 1, is_output_iteration = False\<rparr>]"]
        C1_cadence_check [of "example_parameters 2 4 1" 3 "\<lambda>e h. h" "[]"]
  by (auto simp add: example_parameters_def Let_def)

subsection \<open>Insertion\<close>

text \<open>
  C9, as stated, at the insertion frequency 0 and the step number 1, on a solver whose
  insertion strategy is set: the step number modulo the insertion frequency is 1, and
  \<^verbatim>\<open>insert_particles\<close> returns false and inserts nothing, since \<^verbatim>\<open>fmod(1, 0)\<close> is NaN and
  \<^verbatim>\<open>NaN == 1\<close> is false.
\<close>

theorem C9_zero_frequency_never_inserts:
  "insertion_object (example_loop_solver 3 2 2 0 []) = Some UniformInsertion
   \<and> step_number (example_tick 1 False)
        mod insertion_frequency (example_loop_solver 3 2 2 0 []) = 1
   \<and> insert_particles example_collaborators (example_tick 1 False)
        (example_loop_solver 3 2 2 0 [])
      = (False, example_loop_solver 3 2 2 0 [])"
  by (simp add: insert_particles_def fmod_def fp_eq_def example_loop_solver_def
        example_solver_def example_tick_def)

text \<open>
  C9, amended: on a solver whose insertion strategy is set, \<^verbatim>\<open>insert_particles\<close> returns
  true exactly when the insertion frequency is not 0 and the step number modulo the
  insertion frequency is 1, and it then has made one call of the insertion strategy on
  the particle handler, which is all it has changed; otherwise it returns false and
  leaves the solver, and so the particles, as they were. With the insertion frequency 1
  and with the insertion frequency 0 it never inserts.
\<close>

theorem C9_insert_particles:
  assumes "insertion_object s = Some ins"
  shows "(fst (insert_particles env t s)
            \<longleftrightarrow> insertion_frequency s \<noteq> 0
                \<and> step_number t mod insertion_frequency s = 1)
       \<and> (fst (insert_particles env t s) \<longrightarrow>
            snd (insert_particles env t s) = call env (Insert (Some ins)) s
            \<and> particle_handler (snd (insert_particles env t s))
                = env (Insert (Some ins)) (particle_handler s)
            \<and> log (snd (insert_particles env t s))
                = log s @ [(Insert (Some ins), particle_handler s)])
       \<and> (\<not> fst (insert_particles env t s) \<longrightarrow> snd (insert_particles env t s) = s)
       \<and> (insertion_frequency s = 1 \<or> insertion_frequency s = 0 \<longrightarrow>
            insert_particles env t s = (False, s))"
  using assms by (auto simp add: insert_particles_def fp_eq_fmod call_def emit_def)

theorem C9_insert_particles_witness:
  "fst (insert_particles example_collaborators (example_tick 4 False)
          (example_loop_solver 3 2 2 3 []))
   \<and> particle_handler (snd (insert_particles example_collaborators (example_tick 4 False)
          (example_loop_solver 3 2 2 3 []))) = [example_particle]
   \<and> snd (insert_particles example_collaborators (example_tick 3 False)
          (example_loop_solver 3 2 2 3 [])) = example_loop_solver 3 2 2 3 []
   \<and> insert_particles example_collaborators (example_tick 5 False)
          (example_loop_solver 3 2 2 1 []) = (False, example_loop_solver 3 2 2 1 [])"
proof -
  have a: "insertion_object (example_loop_solver 3 2 2 F []) = Some UniformInsertion" for F
    by (simp add: example_loop_solver_def)
  have b: "insertion_frequency (example_loop_solver 3 2 2 F []) = F"
    "particle_handler (example_loop_solver 3 2 2 F []) = []" for F
    by (simp_all add: example_loop_solver_def example_solver_def)
  from C9_insert_particles [where s = "example_loop_solver 3 2 2 3 []"
         and env = example_collaborators and t = "example_tick 4 False", OF a]
       C9_insert_particles [where s = "example_loop_solver 3 2 2 3 []"
         and env = example_collaborators and t = "example_tick 3 False", OF a]
       C9_insert_particles [where s = "example_loop_solver 3 2 2 1 []"
         and env = example_collaborators and t = "example_tick 5 False", OF a]
  show ?thesis
    by (simp add: b example_tick_def example_collaborators_def call_def emit_def)
qed

subsection \<open>Resetting the forces\<close>

lemma length_reinitialize_force: "length (reinitialize_force ndim h) = length h"
  by (induction h) auto

lemma nth_reinitialize_force:
  "i < length h \<Longrightarrow> reinitialize_force ndim h ! i = reinitialize_particle ndim (h ! i)"
  by (induction h arbitrary: i) (auto simp: nth_Cons split: nat.splits)

lemma reinitialize_force_map: "reinitialize_force ndim h = map (reinitialize_particle ndim) h"
  by (induction h) auto

text \<open>
  C10: \<^verbatim>\<open>reinitialize_force\<close> keeps the particles of the handler, in their order, and
  for each of them the identifier, the cell, the location and every property slot other
  than the six force and torque slots; in a dimension other than 3 it keeps
  \<open>force_z\<close> and \<open>M_z\<close> as well.
\<close>

theorem C10_reinitialize_force_frame:
  "length (reinitialize_force ndim h) = length h
   \<and> (\<forall>i < length h.
        particle_id (reinitialize_force ndim h ! i) = particle_id (h ! i)
        \<and> surrounding_cell (reinitialize_force ndim h ! i) = surrounding_cell (h ! i)
        \<and> location (reinitialize_force ndim h ! i) = location (h ! i)
        \<and> (\<forall>k. k \<notin> {force_x, force_y, force_z, M_x, M_y, M_z} \<longrightarrow>
              properties (reinitialize_force ndim h ! i) k = properties (h ! i) k)
        \<and> (ndim \<noteq> 3 \<longrightarrow>
              properties (reinitialize_force ndim h ! i) force_z = properties (h ! i) force_z
              \<and> properties (reinitialize_force ndim h ! i) M_z = properties (h ! i) M_z))"
  by (simp add: length_reinitialize_force nth_reinitialize_force reinitialize_particle_def
        Let_def)

theorem C10_reinitialize_force_frame_witness:
  "length (reinitialize_force 2 [example_particle]) = 1
   \<and> particle_id (reinitialize_force 2 [example_particle] ! 0) = 7
   \<and> properties (reinitialize_force 2 [example_particle] ! 0) (other_property 4) = 1
   \<and> properties (reinitialize_force 2 [example_particle] ! 0) force_z = 1"
  using C10_reinitialize_force_frame [of 2 "[example_particle]", THEN conjunct2,
          rule_format, of 0]
        C10_reinitialize_force_frame [of 2 "[example_particle]", THEN conjunct1]
  by (simp add: example_particle_def)

subsection \<open>The load-balancing weight\<close>

lemma unat_weight: "unat (of_nat n * particle_weight) = (n * 10000) mod 2 ^ 32"
  by (simp add: particle_weight_def unat_word_ariths unat_of_nat mod_mult_left_eq)

lemma children_particles_sum:
  "children_particles h c bound i n =
     n + of_nat (\<Sum>k = i..<bound.
                  length (filter (\<lambda>p. surrounding_cell p = child_index_of c k) h))"
proof (induction h c bound i n rule: children_particles.induct)
  case (1 h c bound i n)
  show ?case
  proof (cases "i < bound")
    case True
    with 1 show ?thesis
      by (subst children_particles.simps)
         (simp add: sum.atLeast_Suc_lessThan add.assoc n_particles_in_cell_def)
  next
    case False
    then show ?thesis by (subst children_particles.simps) simp
  qed
qed

lemma cell_weight_not_owned:
  "\<not> is_locally_owned c \<Longrightarrow> cell_weight debug ndim h c status = Inr 0"
  by (simp add: cell_weight_def)

lemma cell_weight_persist:
  "is_locally_owned c \<Longrightarrow> status = CELL_PERSIST \<or> status = CELL_REFINE \<Longrightarrow>
   cell_weight debug ndim h c status
     = Inr (of_nat (length (filter (\<lambda>p. surrounding_cell p = cell_index c) h)) * particle_weight)"
  by (simp add: cell_weight_def n_particles_in_cell_def)

lemma cell_weight_coarsen:
  "is_locally_owned c \<Longrightarrow>
   cell_weight debug ndim h c CELL_COARSEN
     = Inr (of_nat (\<Sum>k = 0..<2 ^ ndim.
                  length (filter (\<lambda>p. surrounding_cell p = child_index_of c k) h)) * particle_weight)"
  by (simp add: cell_weight_def children_particles_sum max_children_per_cell_def)

lemma cell_weight_invalid:
  "is_locally_owned c \<Longrightarrow>
   cell_weight debug ndim h c CELL_INVALID = (if debug then Inl ExcInternalError else Inr 0)"
  by (simp add: cell_weight_def)

lemma particle_weight_value: "unat particle_weight = 10000"
  by (simp add: particle_weight_def)

lemma claimed_cell_weight_example:
  "claimed_cell_weight (replicate n example_particle) example_cell = n * 10000"
  by (simp add: claimed_cell_weight_def example_particle_def example_cell_def)

lemma cell_weight_example:
  "cell_weight False 3 (replicate n example_particle) example_cell CELL_PERSIST
     = Inr (of_nat n * particle_weight)"
  by (simp add: cell_weight_def n_particles_in_cell_def example_particle_def example_cell_def)

text \<open>
  C6, as stated, at a locally owned cell that persists and holds 429497 particles: the
  weight is not 429497 times 10000 but 2704, the product reduced modulo \<open>2 ^ 32\<close> by the
  \<^verbatim>\<open>unsigned int\<close> multiplication.
\<close>

theorem C6_weight_wraps:
  "claimed_cell_weight (replicate 429497 example_particle) example_cell = 4294970000
   \<and> map_sum id unat
       (cell_weight False 3 (replicate 429497 example_particle) example_cell CELL_PERSIST)
     = Inr 2704"
  unfolding claimed_cell_weight_example cell_weight_example
  by (simp add: particle_weight_def)

text \<open>
  C6, amended: for a cell that is not locally owned the weight is 0. For a locally owned
  cell that persists or is refined it is the number of particles in the cell times
  10000, reduced modulo \<open>2 ^ 32\<close>; for a locally owned cell that is coarsened it is the
  sum of the numbers of particles in its \<open>2 ^ dim\<close> children times 10000, reduced modulo
  \<open>2 ^ 32\<close>; either is the exact product whenever that is below \<open>2 ^ 32\<close>. For a locally
  owned cell with any other status the release build returns 0 and the debug build
  fails its assertion. The constant 10000 is larger than the base weight 1000 that the
  source's comment gives for a cell.
\<close>

theorem C6_cell_weight:
  "(\<not> is_locally_owned c \<longrightarrow> cell_weight debug ndim h c status = Inr 0)
   \<and> (is_locally_owned c \<and> (status = CELL_PERSIST \<or> status = CELL_REFINE) \<longrightarrow>
        map_sum id unat (cell_weight debug ndim h c status)
          = Inr (claimed_cell_weight h c mod 2 ^ 32)
        \<and> (claimed_cell_weight h c < 2 ^ 32 \<longrightarrow>
             map_sum id unat (cell_weight debug ndim h c status)
               = Inr (claimed_cell_weight h c)))
   \<and> (is_locally_owned c \<and> status = CELL_COARSEN \<longrightarrow>
        map_sum id unat (cell_weight debug ndim h c status)
          = Inr (((\<Sum>k = 0..<2 ^ ndim.
                     length (filter (\<lambda>p. surrounding_cell p = child_index_of c k) h))
                  * 10000) mod 2 ^ 32))
   \<and> (is_locally_owned c \<and> status = CELL_INVALID \<longrightarrow>
        cell_weight debug ndim h c status = (if debug then Inl ExcInternalError else Inr 0))
   \<and> unat particle_weight = 10000 \<and> (1000::nat) < unat particle_weight"
proof (intro conjI impI)
  show "cell_weight debug ndim h c status = Inr 0" if "\<not> is_locally_owned c"
    using that by (rule cell_weight_not_owned)
next
  assume a: "is_locally_owned c \<and> (status = CELL_PERSIST \<or> status = CELL_REFINE)"
  then show m: "map_sum id unat (cell_weight debug ndim h c status)
          = Inr (claimed_cell_weight h c mod 2 ^ 32)"
    by (simp only: cell_weight_persist map_sum.simps unat_weight claimed_cell_weight_def)
  assume "claimed_cell_weight h c < 2 ^ 32"
  then show "map_sum id unat (cell_weight debug ndim h c status) = Inr (claimed_cell_weight h c)"
    by (simp only: m mod_less)
next
  assume "is_locally_owned c \<and> status = CELL_COARSEN"
  then show "map_sum id unat (cell_weight debug ndim h c status)
          = Inr (((\<Sum>k = 0..<2 ^ ndim.
                     length (filter (\<lambda>p. surrounding_cell p = child_index_of c k) h))
                  * 10000) mod 2 ^ 32)"
    by (simp only: cell_weight_coarsen map_sum.simps unat_weight)
next
  assume "is_locally_owned c \<and> status = CELL_INVALID"
  then show "cell_weight debug ndim h c status = (if debug then Inl ExcInternalError else Inr 0)"
    by (simp only: cell_weight_invalid)
next
  show "unat particle_weight = 10000" by (rule particle_weight_value)
  show "(1000::nat) < unat particle_weight" by (simp only: particle_weight_value)
qed

theorem C6_cell_weight_witness:
  "map_sum id unat (cell_weight False 3 (replicate 5 example_particle) example_cell CELL_PERSIST)
     = Inr 50000
   \<and> map_sum id unat
       (cell_weight False 3 (replicate 5 example_particle) example_cell CELL_COARSEN) = Inr 0
   \<and> cell_weight False 3 (replicate 5 example_particle)
       (example_cell\<lparr>is_locally_owned := False\<rparr>) CELL_PERSIST = Inr 0"
  using C6_cell_weight [of example_cell False 3 "replicate 5 example_particle" CELL_PERSIST]
        C6_cell_weight [of example_cell False 3 "replicate 5 example_particle" CELL_COARSEN]
        C6_cell_weight [of "example_cell\<lparr>is_locally_owned := False\<rparr>" False 3
          "replicate 5 example_particle" CELL_PERSIST]
  by (simp add: claimed_cell_weight_example)
     (simp add: example_cell_def example_particle_def)

subsection \<open>Symbolic execution of one iteration and of a run\<close>

lemma emit_simps [simp]:
  "log (emit e s) = log s @ [(e, particle_handler s)]"
  "particle_handler (emit e s) = particle_handler s"
  "template_dim (emit e s) = template_dim s"
  "parameters (emit e s) = parameters s"
  "contact_detection_frequency (emit e s) = contact_detection_frequency s"
  "repartition_frequency (emit e s) = repartition_frequency s"
  "insertion_frequency (emit e s) = insertion_frequency s"
  "cell_weight_signal (emit e s) = cell_weight_signal s"
  "pre_distributed_repartition (emit e s) = pre_distributed_repartition s"
  "post_distributed_repartition (emit e s) = post_distributed_repartition s"
  "insertion_object (emit e s) = insertion_object s"
  "integrator_object (emit e s) = integrator_object s"
  "pp_contact_force_object (emit e s) = pp_contact_force_object s"
  "pw_contact_force_object (emit e s) = pw_contact_force_object s"
  by (simp_all add: emit_def)

lemma call_simps [simp]:
  "log (call env e s) = log s @ [(e, particle_handler s)]"
  "particle_handler (call env e s) = env e (particle_handler s)"
  "template_dim (call env e s) = template_dim s"
  "parameters (call env e s) = parameters s"
  "contact_detection_frequency (call env e s) = contact_detection_frequency s"
  "repartition_frequency (call env e s) = repartition_frequency s"
  "insertion_frequency (call env e s) = insertion_frequency s"
  "cell_weight_signal (call env e s) = cell_weight_signal s"
  "pre_distributed_repartition (call env e s) = pre_distributed_repartition s"
  "post_distributed_repartition (call env e s) = post_distributed_repartition s"
  "insertion_object (call env e s) = insertion_object s"
  "integrator_object (call env e s) = integrator_object s"
  "pp_contact_force_object (call env e s) = pp_contact_force_object s"
  "pw_contact_force_object (call env e s) = pw_contact_force_object s"
  by (simp_all add: call_def)

lemmas step_defs =
  timestep_def Let_def insert_particles_def repartition_def particle_wall_broad_search_def
  particle_wall_fine_search_def particle_wall_contact_force_def

lemma timestep_events:
  assumes "ready ndim p s"
  shows "map fst (log (timestep env t (s\<lparr>log := []\<rparr>)))
         = step_calls ndim p
             (fp_eq (fmod (step_number t) (repartition_frequency s)) 0)
             (fp_eq (fmod (step_number t) (insertion_frequency s)) 1)
             (fp_eq (fmod (step_number t) (contact_detection_frequency s)) 0)
             (is_output_iteration t)"
  using assms unfolding ready_def
  by (cases "fp_eq (fmod (step_number t) (repartition_frequency s)) 0";
      cases "fp_eq (fmod (step_number t) (insertion_frequency s)) 1";
      cases "fp_eq (fmod (step_number t) (contact_detection_frequency s)) 0";
      cases "is_output_iteration t"; cases "ndim = 3";
      simp add: step_defs step_calls_def cong: let_weak_cong)

lemma timestep_ready:
  assumes "ready ndim p s"
  shows "ready ndim p (timestep env t s)"
  using assms unfolding ready_def
  by (cases "fp_eq (fmod (step_number t) (repartition_frequency s)) 0";
      cases "fp_eq (fmod (step_number t) (insertion_frequency s)) 1";
      cases "fp_eq (fmod (step_number t) (contact_detection_frequency s)) 0";
      cases "is_output_iteration t"; cases "ndim = 3";
      simp add: step_defs cong: let_weak_cong)


lemma ready_log [simp]: "ready ndim p (s\<lparr>log := l\<rparr>) = ready ndim p s"
  by (simp add: ready_def)

lemma ready_call [simp]: "ready ndim p (call env e s) = ready ndim p s"
  by (simp add: ready_def)

lemma solve_loop_steps:
  assumes step: "\<And>s t. ready ndim p s \<Longrightarrow> P t (log (timestep env t (s\<lparr>log := []\<rparr>)))"
  shows "ready ndim p s \<Longrightarrow> list_all2 P ts (snd (solve_loop env s ts))"
proof (induction ts arbitrary: s)
  case Nil
  then show ?case by simp
next
  case (Cons t ts)
  have r: "ready ndim p (timestep env t (s\<lparr>log := []\<rparr>))"
    using Cons.prems by (simp add: timestep_ready)
  show ?case
    using step [OF Cons.prems, of t] Cons.IH [OF r] by (simp add: Let_def)
qed

lemma length_solve_loop: "length (snd (solve_loop env s ts)) = length ts"
  by (induction ts arbitrary: s) (simp_all add: Let_def)

lemma DEMSolver_ready:
  "DEMSolver ndim p = Inr s \<Longrightarrow>
   template_dim s = ndim \<and> parameters s = p
   \<and> contact_detection_frequency s = model_parameters_contact_detection_frequency p
   \<and> repartition_frequency s = model_parameters_repartition_frequency p
   \<and> insertion_frequency s = insertion_info_insertion_frequency p
   \<and> cell_weight_signal s = [cell_weight_callback]
   \<and> pre_distributed_repartition s = [register_store_callback_function]
   \<and> post_distributed_repartition s = [register_load_callback_function False]
   \<and> particle_handler s = [] \<and> log s = []
   \<and> fp_eq (fmod (repartition_frequency s) (contact_detection_frequency s)) 0"
  by (auto simp add: DEMSolver_def Let_def fmod_def fp_ne_def fp_eq_def split: if_splits)

lemma solve_aborts:
  assumes "parameters s = p" "configuration_error p = Some e"
  shows "thrown (solve env ticks s) = Some e \<and> timesteps (solve env ticks s) = []"
  using assms
  by (cases "mesh_type p"; cases "insertion_info_insertion_method p";
      cases "model_parameters_integration_method p";
      cases "model_parameters_pp_contact_force_method p";
      cases "model_parameters_pw_contact_force_method p";
      simp add: solve_def read_mesh_def set_insertion_type_def set_integrator_type_def
        set_pp_contact_force_def set_pw_contact_force_def aborted_def configuration_error_def
        chosen_insertion_def chosen_integrator_def chosen_pp_contact_force_def
        chosen_pw_contact_force_def Let_def cong: let_weak_cong)


lemma configuration_ok:
  assumes "configuration_error p = None"
  shows "(mesh_type p = gmsh \<or> mesh_type p = dealii)
    \<and> (insertion_info_insertion_method p = uniform
         \<or> insertion_info_insertion_method p = non_uniform)
    \<and> (model_parameters_integration_method p = velocity_verlet
         \<or> model_parameters_integration_method p = explicit_euler)
    \<and> (model_parameters_pp_contact_force_method p = pp_linear
         \<or> model_parameters_pp_contact_force_method p = pp_nonlinear)
    \<and> (model_parameters_pw_contact_force_method p = pw_linear
         \<or> model_parameters_pw_contact_force_method p = pw_nonlinear)"
  using assms
  by (simp add: configuration_error_def chosen_insertion_def chosen_integrator_def
        chosen_pp_contact_force_def chosen_pw_contact_force_def
      split: if_splits InsertionMethod.splits IntegrationMethod.splits
        PPContactForceModel.splits PWContactForceModel.splits)

lemmas solve_defs =
  solve_def read_mesh_def set_insertion_type_def set_integrator_type_def
  set_pp_contact_force_def set_pw_contact_force_def aborted_def finish_simulation_def Let_def

lemma solve_runs:
  assumes "DEMSolver ndim p = Inr s0" "configuration_error p = None"
  shows "\<exists>s1. timesteps (solve env ticks s0) = snd (solve_loop env s1 ticks)
            \<and> final (solve env ticks s0)
                = finish_simulation env ((fst (solve_loop env s1 ticks))\<lparr>log := []\<rparr>)
            \<and> thrown (solve env ticks s0) = None
            \<and> ready ndim p s1"
  using DEMSolver_ready [OF assms(1)] configuration_ok [OF assms(2)]
  apply (elim conjE disjE)
  apply (simp_all add: solve_defs cong: let_weak_cong)
  apply (rule exI, rule conjI, rule refl, simp add: ready_def chosen_insertion_def chosen_integrator_def
        chosen_pp_contact_force_def chosen_pw_contact_force_def)+
  done

lemma solve_loop_ready:
  "ready ndim p s \<Longrightarrow> ready ndim p (fst (solve_loop env s ts))"
proof (induction ts arbitrary: s)
  case Nil
  then show ?case by simp
next
  case (Cons t ts)
  have "ready ndim p (timestep env t (s\<lparr>log := []\<rparr>))"
    using Cons.prems by (simp add: timestep_ready)
  from Cons.IH [OF this] show ?case by (simp add: Let_def)
qed

lemma solve_steps:
  assumes ctor: "DEMSolver ndim p = Inr s0"
    and step: "\<And>s t. ready ndim p s \<Longrightarrow> P t (log (timestep env t (s\<lparr>log := []\<rparr>)))"
  shows "(configuration_error p = None \<longrightarrow>
            thrown (solve env ticks s0) = None
            \<and> length (timesteps (solve env ticks s0)) = length ticks
            \<and> ready ndim p (final (solve env ticks s0)))
       \<and> (\<forall>i < length (timesteps (solve env ticks s0)).
            i < length ticks \<and> P (ticks ! i) (timesteps (solve env ticks s0) ! i))"
proof (cases "configuration_error p")
  case None
  from solve_runs [OF ctor None, of env ticks] obtain s1 where
    ts: "timesteps (solve env ticks s0) = snd (solve_loop env s1 ticks)" and
    fin: "final (solve env ticks s0)
            = finish_simulation env ((fst (solve_loop env s1 ticks))\<lparr>log := []\<rparr>)" and
    thr: "thrown (solve env ticks s0) = None" and
    rdy: "ready ndim p s1"
    by blast
  have "list_all2 P ticks (snd (solve_loop env s1 ticks))"
    using step rdy by (rule solve_loop_steps)
  then have all: "\<forall>i < length ticks. P (ticks ! i) (snd (solve_loop env s1 ticks) ! i)"
    by (simp add: list_all2_conv_all_nth)
  have "ready ndim p (fst (solve_loop env s1 ticks))"
    using rdy by (rule solve_loop_ready)
  then have "ready ndim p (final (solve env ticks s0))"
    by (simp add: fin finish_simulation_def)
  with all thr show ?thesis
    by (simp add: ts length_solve_loop)
next
  case (Some e)
  have "parameters s0 = p"
    using DEMSolver_ready [OF ctor] by simp
  from solve_aborts [OF this Some, of env ticks] show ?thesis
    using Some by simp
qed

lemma DEMSolver_example:
  "0 < C \<Longrightarrow> R mod C = 0 \<Longrightarrow>
   DEMSolver ndim (example_parameters C R F) = Inr (example_solver ndim C R F [])"
  by (simp add: DEMSolver_def example_parameters_def example_solver_def fp_ne_fmod_0)

lemma configuration_error_example: "configuration_error (example_parameters C R F) = None"
  by (simp add: configuration_error_def example_parameters_def chosen_insertion_def
        chosen_integrator_def chosen_pp_contact_force_def chosen_pw_contact_force_def)

lemma ready_example:
  "0 < C \<Longrightarrow> R mod C = 0 \<Longrightarrow> ready ndim (example_parameters C R F)
     ((example_solver ndim C R F h)
        \<lparr>insertion_object := Some UniformInsertion,
         integrator_object := Some VelocityVerletIntegrator,
         pp_contact_force_object := Some PPLinearForce,
         pw_contact_force_object := Some PWLinearForce\<rparr>)"
  by (simp add: ready_def example_solver_def example_parameters_def chosen_insertion_def
        chosen_integrator_def chosen_pp_contact_force_def chosen_pw_contact_force_def
        fp_eq_fmod)

lemma DEMSolver_example_2:
  "DEMSolver ndim (example_parameters 2 2 F) = Inr (example_solver ndim 2 2 F [])"
  by (simp add: DEMSolver_example)

lemma cadence_dvd: "y \<noteq> 0 \<Longrightarrow> fp_eq (fmod x y) 0 = (y dvd x)"
  by (simp add: fp_eq_fmod mod_eq_0_iff_dvd)

lemma ready_cadence:
  "ready ndim p s \<Longrightarrow> model_parameters_contact_detection_frequency p \<noteq> 0
     \<and> model_parameters_contact_detection_frequency p dvd model_parameters_repartition_frequency p"
  by (auto simp add: ready_def fp_eq_fmod mod_eq_0_iff_dvd)

lemma step_calls_members:
  "Insert m \<in> set (step_calls ndim p rep ins cad out) \<longleftrightarrow> ins \<and> m = chosen_insertion p"
  "list_ex is_insert (step_calls ndim p rep ins cad out) \<longleftrightarrow> ins"
  "Redistribute \<in> set (step_calls ndim p rep ins cad out) \<longleftrightarrow> rep"
  "Find_PP_Contact_Pairs \<in> set (step_calls ndim p rep ins cad out) \<longleftrightarrow> ins \<or> cad"
  "Find_PW_Contact_Pairs \<in> set (step_calls ndim p rep ins cad out) \<longleftrightarrow> ins \<or> cad"
  "Find_Particle_Point_Contact_Pairs \<in> set (step_calls ndim p rep ins cad out) \<longleftrightarrow> ins \<or> cad"
  "Find_Particle_Line_Contact_Pairs \<in> set (step_calls ndim p rep ins cad out)
     \<longleftrightarrow> (ins \<or> cad) \<and> ndim = 3"
  "PP_Fine_Search \<in> set (step_calls ndim p rep ins cad out) \<longleftrightarrow> ins \<or> cad"
  "PW_Fine_Search \<in> set (step_calls ndim p rep ins cad out) \<longleftrightarrow> ins \<or> cad"
  "Particle_Point_Fine_Search \<in> set (step_calls ndim p rep ins cad out) \<longleftrightarrow> ins \<or> cad"
  "Particle_Line_Fine_Search \<in> set (step_calls ndim p rep ins cad out)
     \<longleftrightarrow> (ins \<or> cad) \<and> ndim = 3"
  by (auto simp add: step_calls_def is_insert_def)


lemma timestep_events_p:
  assumes "ready ndim p s"
  shows "map fst (log (timestep env t (s\<lparr>log := []\<rparr>)))
         = step_calls ndim p
             (fp_eq (fmod (step_number t) (model_parameters_repartition_frequency p)) 0)
             (insertion_info_insertion_frequency p \<noteq> 0
              \<and> step_number t mod insertion_info_insertion_frequency p = 1)
             (model_parameters_contact_detection_frequency p dvd step_number t)
             (is_output_iteration t)"
proof -
  have "contact_detection_frequency s = model_parameters_contact_detection_frequency p"
    "repartition_frequency s = model_parameters_repartition_frequency p"
    "insertion_frequency s = insertion_info_insertion_frequency p"
    using assms by (simp_all add: ready_def)
  moreover have "model_parameters_contact_detection_frequency p \<noteq> 0"
    using ready_cadence [OF assms] by simp
  ultimately show ?thesis
    using timestep_events [OF assms, of env t] by (simp add: fp_eq_fmod dvd_eq_mod_eq_0)
qed

lemma contact_search_step:
  assumes "ready ndim p s"
  shows "(let evs = map fst (log (timestep env t (s\<lparr>log := []\<rparr>)));
              n = step_number t;
              inserted = list_ex is_insert evs;
              detect = (inserted \<or> model_parameters_contact_detection_frequency p dvd n)
          in (inserted \<longleftrightarrow> insertion_info_insertion_frequency p \<noteq> 0
                           \<and> n mod insertion_info_insertion_frequency p = 1)
           \<and> (Find_PP_Contact_Pairs \<in> set evs \<longleftrightarrow> detect)
           \<and> (Find_PW_Contact_Pairs \<in> set evs \<longleftrightarrow> detect)
           \<and> (Find_Particle_Point_Contact_Pairs \<in> set evs \<longleftrightarrow> detect)
           \<and> (Find_Particle_Line_Contact_Pairs \<in> set evs \<longleftrightarrow> detect \<and> ndim = 3)
           \<and> (PP_Fine_Search \<in> set evs \<longleftrightarrow> detect)
           \<and> (PW_Fine_Search \<in> set evs \<longleftrightarrow> detect)
           \<and> (Particle_Point_Fine_Search \<in> set evs \<longleftrightarrow> detect)
           \<and> (Particle_Line_Fine_Search \<in> set evs \<longleftrightarrow> detect \<and> ndim = 3))"
  unfolding timestep_events_p [OF assms] Let_def step_calls_members by simp

subsection \<open>The order of the phases\<close>

lemma solve_example_events:
  "map (map fst) (timesteps (solve no_effect [example_tick 2 False] (example_solver 3 2 2 2 [])))
   = [step_calls 3 (example_parameters 2 2 2) True False True False]"
  by (simp add: solve_defs step_defs example_solver_def example_parameters_def example_tick_def
        fp_eq_fmod step_calls_def chosen_insertion_def
        chosen_integrator_def chosen_pp_contact_force_def chosen_pw_contact_force_def
      cong: let_weak_cong)

lemma claimed_phase_order_example:
  "\<not> claimed_phase_order (step_calls 3 (example_parameters 2 2 2) True False True False)"
  by (simp add: claimed_phase_order_def step_calls_def phase_of_def phase_rank_def)

text \<open>
  C2, as stated, at the timestep with step number 2 of a three-dimensional run with
  detection and repartition frequency 2: the phases are not in the order broad search,
  fine search, force, integration, since the particle-particle force is computed before
  the particle-wall, particle-point and particle-line fine searches.
\<close>

theorem C2_force_before_wall_fine_search:
  "DEMSolver 3 (example_parameters 2 2 2) = Inr (example_solver 3 2 2 2 [])
   \<and> \<not> claimed_phase_order
         (hd (map (map fst)
            (timesteps (solve no_effect [example_tick 2 False] (example_solver 3 2 2 2 [])))))"
  by (simp add: DEMSolver_example solve_example_events claimed_phase_order_example)

lemma step_calls_phase_order:
  "phase_order_of_kind k (step_calls ndim p rep ins cad out)
   \<and> ghosts_exchanged_before_force (step_calls ndim p rep ins cad out)"
  by (cases k; cases rep; cases ins; cases cad; cases out; cases "ndim = 3";
      simp add: phase_order_of_kind_def ghosts_exchanged_before_force_def step_calls_def
        phase_of_kind_def phase_of_def kind_of_def phase_rank_def)

text \<open>
  C2, amended: within every timestep of \<^verbatim>\<open>solve\<close> and for each kind of contact
  (particle-particle, particle-wall, particle-point, particle-line), the broad searches
  come before the fine search of that kind, which comes before the force computation of
  that kind, which comes before the integration; the ghost particles are exchanged in
  every timestep, before any force computation. (Across kinds the order is not kept:
  the particle-particle force precedes the fine searches of the other kinds.)
\<close>

theorem C2_phase_order_per_kind:
  assumes "DEMSolver ndim p = Inr s0"
  shows "(configuration_error p = None \<longrightarrow>
            length (timesteps (solve env ticks s0)) = length ticks)
       \<and> (\<forall>i < length (timesteps (solve env ticks s0)).
            (\<forall>k. phase_order_of_kind k (map fst (timesteps (solve env ticks s0) ! i)))
            \<and> ghosts_exchanged_before_force (map fst (timesteps (solve env ticks s0) ! i)))"
  using solve_steps [OF assms, of "\<lambda>t tr. (\<forall>k. phase_order_of_kind k (map fst tr))
            \<and> ghosts_exchanged_before_force (map fst tr)" env ticks]
  by (simp add: timestep_events step_calls_phase_order)

theorem C2_phase_order_per_kind_witness:
  "length (timesteps (solve no_effect [example_tick 2 False] (example_solver 3 2 2 2 []))) = 1
   \<and> phase_order_of_kind particle_wall
        (map fst (timesteps (solve no_effect [example_tick 2 False]
                    (example_solver 3 2 2 2 [])) ! 0))
   \<and> ghosts_exchanged_before_force
        (map fst (timesteps (solve no_effect [example_tick 2 False]
                    (example_solver 3 2 2 2 [])) ! 0))"
  using C2_phase_order_per_kind [of 3 "example_parameters 2 2 2" "example_solver 3 2 2 2 []"
          no_effect "[example_tick 2 False]"]
  by (simp add: DEMSolver_example configuration_error_example)

subsection \<open>The cadence of the contact searches\<close>

text \<open>
  C3: in every timestep of \<^verbatim>\<open>solve\<close>, with step number \<open>n\<close>, each broad search and each
  fine search (the particle-line ones in three dimensions only, where lines exist) runs
  if and only if particles were inserted in that timestep or the contact detection
  frequency divides \<open>n\<close>; particles are inserted exactly when \<open>n\<close> modulo the insertion
  frequency is 1.
\<close>

theorem C3_contact_search_cadence:
  assumes "DEMSolver ndim p = Inr s0"
  shows "(configuration_error p = None \<longrightarrow>
            length (timesteps (solve env ticks s0)) = length ticks)
       \<and> (\<forall>i < length (timesteps (solve env ticks s0)).
           (let evs = map fst (timesteps (solve env ticks s0) ! i);
                n = step_number (ticks ! i);
                inserted = list_ex is_insert evs;
                detect = (inserted \<or> model_parameters_contact_detection_frequency p dvd n)
            in (inserted \<longleftrightarrow> insertion_info_insertion_frequency p \<noteq> 0
                             \<and> n mod insertion_info_insertion_frequency p = 1)
             \<and> (Find_PP_Contact_Pairs \<in> set evs \<longleftrightarrow> detect)
             \<and> (Find_PW_Contact_Pairs \<in> set evs \<longleftrightarrow> detect)
             \<and> (Find_Particle_Point_Contact_Pairs \<in> set evs \<longleftrightarrow> detect)
             \<and> (Find_Particle_Line_Contact_Pairs \<in> set evs \<longleftrightarrow> detect \<and> ndim = 3)
             \<and> (PP_Fine_Search \<in> set evs \<longleftrightarrow> detect)
             \<and> (PW_Fine_Search \<in> set evs \<longleftrightarrow> detect)
             \<and> (Particle_Point_Fine_Search \<in> set evs \<longleftrightarrow> detect)
             \<and> (Particle_Line_Fine_Search \<in> set evs \<longleftrightarrow> detect \<and> ndim = 3)))"
proof -
  let ?P = "\<lambda>t tr.
     (let evs = map fst tr;
          n = step_number t;
          inserted = list_ex is_insert evs;
          detect = (inserted \<or> model_parameters_contact_detection_frequency p dvd n)
      in (inserted \<longleftrightarrow> insertion_info_insertion_frequency p \<noteq> 0
                       \<and> n mod insertion_info_insertion_frequency p = 1)
       \<and> (Find_PP_Contact_Pairs \<in> set evs \<longleftrightarrow> detect)
       \<and> (Find_PW_Contact_Pairs \<in> set evs \<longleftrightarrow> detect)
       \<and> (Find_Particle_Point_Contact_Pairs \<in> set evs \<longleftrightarrow> detect)
       \<and> (Find_Particle_Line_Contact_Pairs \<in> set evs \<longleftrightarrow> detect \<and> ndim = 3)
       \<and> (PP_Fine_Search \<in> set evs \<longleftrightarrow> detect)
       \<and> (PW_Fine_Search \<in> set evs \<longleftrightarrow> detect)
       \<and> (Particle_Point_Fine_Search \<in> set evs \<longleftrightarrow> detect)
       \<and> (Particle_Line_Fine_Search \<in> set evs \<longleftrightarrow> detect \<and> ndim = 3))"
  have "\<And>s t. ready ndim p s \<Longrightarrow> ?P t (log (timestep env t (s\<lparr>log := []\<rparr>)))"
    by (rule contact_search_step)
  from solve_steps [OF assms, of ?P env ticks, OF this] show ?thesis
    by blast
qed

theorem C3_contact_search_cadence_witness:
  "length (timesteps (solve no_effect [example_tick 3 False, example_tick 4 False]
             (example_solver 3 2 2 0 []))) = 2
   \<and> Find_PP_Contact_Pairs \<notin> set (map fst (timesteps
        (solve no_effect [example_tick 3 False, example_tick 4 False]
           (example_solver 3 2 2 0 [])) ! 0))
   \<and> Find_PP_Contact_Pairs \<in> set (map fst (timesteps
        (solve no_effect [example_tick 3 False, example_tick 4 False]
           (example_solver 3 2 2 0 [])) ! 1))
   \<and> Particle_Line_Fine_Search \<in> set (map fst (timesteps
        (solve no_effect [example_tick 3 False, example_tick 4 False]
           (example_solver 3 2 2 0 [])) ! 1))"
proof -
  let ?r = "solve no_effect [example_tick 3 False, example_tick 4 False]
              (example_solver 3 2 2 0 [])"
  note c3 = C3_contact_search_cadence [where ndim = 3 and p = "example_parameters 2 2 0"
              and ?s0.0 = "example_solver 3 2 2 0 []" and env = no_effect
              and ticks = "[example_tick 3 False, example_tick 4 False]",
              OF DEMSolver_example_2]
  have len: "length (timesteps ?r) = 2"
    using c3 by (simp add: configuration_error_example)
  then have "0 < length (timesteps ?r)" "1 < length (timesteps ?r)"
    by simp_all
  from c3 [THEN conjunct2, rule_format, OF this(1)]
       c3 [THEN conjunct2, rule_format, OF this(2)] len
  show ?thesis
    by (simp add: Let_def example_parameters_def example_tick_def)
qed

subsection \<open>The force models run in every timestep\<close>

lemma step_calls_forces:
  "filter (\<lambda>e. phase_of e = Some contact_force) (step_calls ndim p rep ins cad out)
   = [Calculate_pp_contact_force (chosen_pp_contact_force p),
      Calculate_pw_contact_force (chosen_pw_contact_force p),
      Calculate_particle_point_line_contact_force particle_points_in_contact]
     @ (if ndim = 3
        then [Calculate_particle_point_line_contact_force particle_lines_in_contact]
        else [])"
  by (simp add: step_calls_def phase_of_def)

text \<open>
  C4: in every timestep of \<^verbatim>\<open>solve\<close>, whatever the cadence tests give, the force
  computations are exactly these, each once and in this order: the particle-particle
  force model, the particle-wall force model, the particle-point force and, in three
  dimensions, the particle-line force.
\<close>

theorem C4_forces_every_timestep:
  assumes "DEMSolver ndim p = Inr s0"
  shows "(configuration_error p = None \<longrightarrow>
            length (timesteps (solve env ticks s0)) = length ticks)
       \<and> (\<forall>i < length (timesteps (solve env ticks s0)).
            filter (\<lambda>e. phase_of e = Some contact_force)
              (map fst (timesteps (solve env ticks s0) ! i))
            = [Calculate_pp_contact_force (chosen_pp_contact_force p),
               Calculate_pw_contact_force (chosen_pw_contact_force p),
               Calculate_particle_point_line_contact_force particle_points_in_contact]
              @ (if ndim = 3
                 then [Calculate_particle_point_line_contact_force particle_lines_in_contact]
                 else []))"
  using solve_steps [OF assms, of "\<lambda>t tr. filter (\<lambda>e. phase_of e = Some contact_force) (map fst tr)
            = [Calculate_pp_contact_force (chosen_pp_contact_force p),
               Calculate_pw_contact_force (chosen_pw_contact_force p),
               Calculate_particle_point_line_contact_force particle_points_in_contact]
              @ (if ndim = 3
                 then [Calculate_particle_point_line_contact_force particle_lines_in_contact]
                 else [])" env ticks]
  by (simp add: timestep_events step_calls_forces)

theorem C4_forces_every_timestep_witness:
  "length (timesteps (solve no_effect [example_tick 3 False] (example_solver 2 2 2 0 []))) = 1
   \<and> filter (\<lambda>e. phase_of e = Some contact_force)
        (map fst (timesteps (solve no_effect [example_tick 3 False]
                    (example_solver 2 2 2 0 [])) ! 0))
      = [Calculate_pp_contact_force (Some PPLinearForce),
         Calculate_pw_contact_force (Some PWLinearForce),
         Calculate_particle_point_line_contact_force particle_points_in_contact]"
proof -
  let ?r = "solve no_effect [example_tick 3 False] (example_solver 2 2 2 0 [])"
  note c4 = C4_forces_every_timestep [where ndim = 2 and p = "example_parameters 2 2 0"
              and ?s0.0 = "example_solver 2 2 2 0 []" and env = no_effect
              and ticks = "[example_tick 3 False]", OF DEMSolver_example_2]
  have len: "length (timesteps ?r) = 1"
    using c4 by (simp add: configuration_error_example)
  then have "0 < length (timesteps ?r)"
    by simp
  from c4 [THEN conjunct2, rule_format, OF this] len
  show ?thesis
    by (simp add: example_parameters_def chosen_pp_contact_force_def
          chosen_pw_contact_force_def)
qed

subsection \<open>The forces are reset first\<close>

lemma forces_reset_reinitialize_force: "forces_reset ndim (reinitialize_force ndim h)"
  by (induction h) (simp_all add: forces_reset_def reinitialize_particle_def Let_def)

lemma particle_id_reinitialize_force:
  "map particle_id (reinitialize_force ndim h) = map particle_id h"
  by (induction h) (simp_all add: reinitialize_particle_def Let_def)

lemma reset_step:
  assumes "ready ndim p s"
  shows "reset_comes_first ndim (log (timestep env t (s\<lparr>log := []\<rparr>)))"
  using assms unfolding ready_def
  by (cases "fp_eq (fmod (step_number t) (repartition_frequency s)) 0";
      cases "fp_eq (fmod (step_number t) (insertion_frequency s)) 1";
      cases "fp_eq (fmod (step_number t) (contact_detection_frequency s)) 0";
      cases "is_output_iteration t"; cases "ndim = 3";
      simp add: step_defs reset_comes_first_def is_insert_def phase_of_def
        forces_reset_reinitialize_force particle_id_reinitialize_force
        length_reinitialize_force cong: let_weak_cong)

text \<open>
  C8: in every timestep of \<^verbatim>\<open>solve\<close>, no insertion, broad or fine search, force
  computation or integration is called before \<^verbatim>\<open>reinitialize_force\<close>, and the call that
  follows it sees every particle that \<^verbatim>\<open>reinitialize_force\<close> was given (as many particles,
  with the same identifiers in the same order), each with \<open>force_x\<close>, \<open>force_y\<close>, \<open>M_x\<close>,
  \<open>M_y\<close> and, in three dimensions, \<open>force_z\<close> and \<open>M_z\<close> equal to zero.
\<close>

theorem C8_forces_reset_first:
  assumes "DEMSolver ndim p = Inr s0"
  shows "(configuration_error p = None \<longrightarrow>
            length (timesteps (solve env ticks s0)) = length ticks)
       \<and> (\<forall>i < length (timesteps (solve env ticks s0)).
            reset_comes_first ndim (timesteps (solve env ticks s0) ! i))"
  using solve_steps [OF assms, of "\<lambda>t tr. reset_comes_first ndim tr" env ticks]
  by (simp add: reset_step)

text \<open>
  A run in which a particle is inserted at step 3 with every property 1: at step 4 the
  reset is given that particle and hands on the particle with its forces and torques
  at zero.
\<close>

lemma example_run_second_step:
  "map snd (take 2 (dropWhile (\<lambda>x. fst x \<noteq> Reinitialize_force)
     (timesteps (solve example_collaborators [example_tick 3 False, example_tick 4 False]
             (example_solver 3 2 2 2 [])) ! 1)))
   = [[example_particle], [reinitialize_particle 3 example_particle]]"
  by (simp add: solve_defs step_defs example_solver_def example_parameters_def example_tick_def
        fp_eq_fmod example_collaborators_def cong: let_weak_cong)

theorem C8_forces_reset_first_witness:
  "length (timesteps (solve example_collaborators [example_tick 3 False, example_tick 4 False]
             (example_solver 3 2 2 2 []))) = 2
   \<and> reset_comes_first 3
        (timesteps (solve example_collaborators [example_tick 3 False, example_tick 4 False]
             (example_solver 3 2 2 2 [])) ! 1)
   \<and> map snd (take 2 (dropWhile (\<lambda>x. fst x \<noteq> Reinitialize_force)
        (timesteps (solve example_collaborators [example_tick 3 False, example_tick 4 False]
             (example_solver 3 2 2 2 [])) ! 1)))
      = [[example_particle], [reinitialize_particle 3 example_particle]]
   \<and> properties (reinitialize_particle 3 example_particle) force_x = 0
   \<and> properties (reinitialize_particle 3 example_particle) M_z = 0"
proof -
  let ?r = "solve example_collaborators [example_tick 3 False, example_tick 4 False]
              (example_solver 3 2 2 2 [])"
  note c8 = C8_forces_reset_first [where ndim = 3 and p = "example_parameters 2 2 2"
              and ?s0.0 = "example_solver 3 2 2 2 []" and env = example_collaborators
              and ticks = "[example_tick 3 False, example_tick 4 False]",
              OF DEMSolver_example_2]
  have len: "length (timesteps ?r) = 2"
    using c8 by (simp add: configuration_error_example)
  then have "1 < length (timesteps ?r)"
    by simp
  from c8 [THEN conjunct2, rule_format, OF this] len example_run_second_step
  show ?thesis
    by (simp add: reinitialize_particle_def)
qed

subsection \<open>The choice of the strategies\<close>

lemma configuration_error_None_iff:
  "configuration_error p = None \<longleftrightarrow>
     mesh_type p \<in> {gmsh, dealii}
     \<and> insertion_info_insertion_method p \<in> {uniform, non_uniform}
     \<and> model_parameters_integration_method p \<in> {velocity_verlet, explicit_euler}
     \<and> model_parameters_pp_contact_force_method p \<in> {pp_linear, pp_nonlinear}
     \<and> model_parameters_pw_contact_force_method p \<in> {pw_linear, pw_nonlinear}"
  by (simp add: configuration_error_def chosen_insertion_def chosen_integrator_def
        chosen_pp_contact_force_def chosen_pw_contact_force_def
      split: InsertionMethod.splits IntegrationMethod.splits
        PPContactForceModel.splits PWContactForceModel.splits)

lemma configuration_error_insertion:
  "mesh_type p \<in> {gmsh, dealii} \<Longrightarrow>
   insertion_info_insertion_method p \<notin> {uniform, non_uniform} \<Longrightarrow>
   configuration_error p = Some (thrown_literal ''The chosen insertion method is invalid'')"
  by (simp add: configuration_error_def chosen_insertion_def split: InsertionMethod.splits)

lemma configuration_error_integration:
  "mesh_type p \<in> {gmsh, dealii} \<Longrightarrow>
   insertion_info_insertion_method p \<in> {uniform, non_uniform} \<Longrightarrow>
   model_parameters_integration_method p \<notin> {velocity_verlet, explicit_euler} \<Longrightarrow>
   configuration_error p = Some (thrown_literal ''The chosen integration method is invalid'')"
  by (auto simp add: configuration_error_def chosen_insertion_def chosen_integrator_def
      split: IntegrationMethod.splits)

lemma configuration_error_pp:
  "mesh_type p \<in> {gmsh, dealii} \<Longrightarrow>
   insertion_info_insertion_method p \<in> {uniform, non_uniform} \<Longrightarrow>
   model_parameters_integration_method p \<in> {velocity_verlet, explicit_euler} \<Longrightarrow>
   model_parameters_pp_contact_force_method p \<notin> {pp_linear, pp_nonlinear} \<Longrightarrow>
   configuration_error p
     = Some (thrown_literal ''The chosen particle-particle contact force model is invalid'')"
  by (auto simp add: configuration_error_def chosen_insertion_def chosen_integrator_def
        chosen_pp_contact_force_def split: PPContactForceModel.splits)

lemma configuration_error_pw:
  "mesh_type p \<in> {gmsh, dealii} \<Longrightarrow>
   insertion_info_insertion_method p \<in> {uniform, non_uniform} \<Longrightarrow>
   model_parameters_integration_method p \<in> {velocity_verlet, explicit_euler} \<Longrightarrow>
   model_parameters_pp_contact_force_method p \<in> {pp_linear, pp_nonlinear} \<Longrightarrow>
   model_parameters_pw_contact_force_method p \<notin> {pw_linear, pw_nonlinear} \<Longrightarrow>
   configuration_error p
     = Some (thrown_literal ''The chosen particle-wall contact force model is invalid'')"
  by (auto simp add: configuration_error_def chosen_insertion_def chosen_integrator_def
        chosen_pp_contact_force_def chosen_pw_contact_force_def
      split: PWContactForceModel.splits)

lemma step_calls_strategies:
  assumes "e \<in> set (step_calls ndim p rep ins cad out)"
  shows "(\<forall>m. e = Insert m \<longrightarrow> m = chosen_insertion p)
       \<and> (\<forall>m. e = Integrate m \<longrightarrow> m = chosen_integrator p)
       \<and> (\<forall>m. e = Calculate_pp_contact_force m \<longrightarrow> m = chosen_pp_contact_force p)
       \<and> (\<forall>m. e = Calculate_pw_contact_force m \<longrightarrow> m = chosen_pw_contact_force p)"
  using assms by (auto simp add: step_calls_def split: if_splits)

lemma solve_thrown:
  assumes "DEMSolver ndim p = Inr s0"
  shows "thrown (solve env ticks s0) = configuration_error p
       \<and> (configuration_error p \<noteq> None \<longrightarrow> timesteps (solve env ticks s0) = [])"
proof (cases "configuration_error p")
  case None
  then show ?thesis using solve_runs [OF assms None, of env ticks] by auto
next
  case (Some e)
  have "parameters s0 = p"
    using DEMSolver_ready [OF assms] by simp
  from solve_aborts [OF this Some, of env ticks] show ?thesis
    using Some by simp
qed


lemma DEMSolver_other_insertion:
  "DEMSolver 3 other_insertion_parameters
     = Inr ((example_solver 3 2 2 2 [])\<lparr>parameters := other_insertion_parameters\<rparr>)"
  by (simp add: DEMSolver_def other_insertion_parameters_def example_parameters_def
        example_solver_def fp_ne_fmod_0)

text \<open>
  C7: on a constructed solver, when the insertion method, the integration method, the
  particle-particle or the particle-wall force model is none of the two values that its
  selector names, \<^verbatim>\<open>solve\<close> throws before its loop and no timestep runs; with a
  supported mesh type the exception is the message of the first selector, in the order
  insertion, integration, particle-particle, particle-wall, that meets such a value.
  When all four are recognised (and the mesh type is supported), nothing is thrown,
  every iteration runs, the four strategies are the variants that correspond to the
  parameters, and every call through a strategy in every timestep uses the strategy
  that the solver holds at the end: the choice made before the loop is never changed.
\<close>

theorem C7_strategy_selection:
  assumes "DEMSolver ndim p = Inr s0"
  shows
   "(insertion_info_insertion_method p \<notin> {uniform, non_uniform}
       \<or> model_parameters_integration_method p \<notin> {velocity_verlet, explicit_euler}
       \<or> model_parameters_pp_contact_force_method p \<notin> {pp_linear, pp_nonlinear}
       \<or> model_parameters_pw_contact_force_method p \<notin> {pw_linear, pw_nonlinear}
     \<longrightarrow> thrown (solve env ticks s0) \<noteq> None \<and> timesteps (solve env ticks s0) = [])
    \<and> (mesh_type p \<in> {gmsh, dealii} \<longrightarrow>
         (insertion_info_insertion_method p \<notin> {uniform, non_uniform} \<longrightarrow>
            thrown (solve env ticks s0)
              = Some (thrown_literal ''The chosen insertion method is invalid''))
       \<and> (insertion_info_insertion_method p \<in> {uniform, non_uniform}
            \<and> model_parameters_integration_method p \<notin> {velocity_verlet, explicit_euler} \<longrightarrow>
            thrown (solve env ticks s0)
              = Some (thrown_literal ''The chosen integration method is invalid''))
       \<and> (insertion_info_insertion_method p \<in> {uniform, non_uniform}
            \<and> model_parameters_integration_method p \<in> {velocity_verlet, explicit_euler}
            \<and> model_parameters_pp_contact_force_method p \<notin> {pp_linear, pp_nonlinear} \<longrightarrow>
            thrown (solve env ticks s0)
              = Some (thrown_literal
                  ''The chosen particle-particle contact force model is invalid''))
       \<and> (insertion_info_insertion_method p \<in> {uniform, non_uniform}
            \<and> model_parameters_integration_method p \<in> {velocity_verlet, explicit_euler}
            \<and> model_parameters_pp_contact_force_method p \<in> {pp_linear, pp_nonlinear}
            \<and> model_parameters_pw_contact_force_method p \<notin> {pw_linear, pw_nonlinear} \<longrightarrow>
            thrown (solve env ticks s0)
              = Some (thrown_literal
                  ''The chosen particle-wall contact force model is invalid''))
       \<and> (insertion_info_insertion_method p \<in> {uniform, non_uniform}
            \<and> model_parameters_integration_method p \<in> {velocity_verlet, explicit_euler}
            \<and> model_parameters_pp_contact_force_method p \<in> {pp_linear, pp_nonlinear}
            \<and> model_parameters_pw_contact_force_method p \<in> {pw_linear, pw_nonlinear} \<longrightarrow>
            thrown (solve env ticks s0) = None
            \<and> length (timesteps (solve env ticks s0)) = length ticks
            \<and> insertion_object (final (solve env ticks s0))
                = Some (if insertion_info_insertion_method p = uniform
                        then UniformInsertion else NonUniformInsertion)
            \<and> integrator_object (final (solve env ticks s0))
                = Some (if model_parameters_integration_method p = velocity_verlet
                        then VelocityVerletIntegrator else ExplicitEulerIntegrator)
            \<and> pp_contact_force_object (final (solve env ticks s0))
                = Some (if model_parameters_pp_contact_force_method p = pp_linear
                        then PPLinearForce else PPNonLinearForce)
            \<and> pw_contact_force_object (final (solve env ticks s0))
                = Some (if model_parameters_pw_contact_force_method p = pw_linear
                        then PWLinearForce else PWNonLinearForce)
            \<and> (\<forall>i < length ticks. \<forall>e \<in> set (map fst (timesteps (solve env ticks s0) ! i)).
                  (\<forall>m. e = Insert m \<longrightarrow> m = insertion_object (final (solve env ticks s0)))
                \<and> (\<forall>m. e = Integrate m \<longrightarrow>
                       m = integrator_object (final (solve env ticks s0)))
                \<and> (\<forall>m. e = Calculate_pp_contact_force m \<longrightarrow>
                       m = pp_contact_force_object (final (solve env ticks s0)))
                \<and> (\<forall>m. e = Calculate_pw_contact_force m \<longrightarrow>
                       m = pw_contact_force_object (final (solve env ticks s0))))))"
proof (intro conjI impI)
  assume "insertion_info_insertion_method p \<notin> {uniform, non_uniform}
       \<or> model_parameters_integration_method p \<notin> {velocity_verlet, explicit_euler}
       \<or> model_parameters_pp_contact_force_method p \<notin> {pp_linear, pp_nonlinear}
       \<or> model_parameters_pw_contact_force_method p \<notin> {pw_linear, pw_nonlinear}"
  then have "configuration_error p \<noteq> None"
    by (auto simp add: configuration_error_None_iff)
  then show "thrown (solve env ticks s0) \<noteq> None" "timesteps (solve env ticks s0) = []"
    using solve_thrown [OF assms, of env ticks] by simp_all
next
  assume "mesh_type p \<in> {gmsh, dealii}"
    "insertion_info_insertion_method p \<notin> {uniform, non_uniform}"
  then show "thrown (solve env ticks s0)
              = Some (thrown_literal ''The chosen insertion method is invalid'')"
    using solve_thrown [OF assms, of env ticks] by (simp add: configuration_error_insertion)
next
  assume "mesh_type p \<in> {gmsh, dealii}"
    "insertion_info_insertion_method p \<in> {uniform, non_uniform}
      \<and> model_parameters_integration_method p \<notin> {velocity_verlet, explicit_euler}"
  then show "thrown (solve env ticks s0)
              = Some (thrown_literal ''The chosen integration method is invalid'')"
    using solve_thrown [OF assms, of env ticks] by (simp add: configuration_error_integration)
next
  assume "mesh_type p \<in> {gmsh, dealii}"
    "insertion_info_insertion_method p \<in> {uniform, non_uniform}
      \<and> model_parameters_integration_method p \<in> {velocity_verlet, explicit_euler}
      \<and> model_parameters_pp_contact_force_method p \<notin> {pp_linear, pp_nonlinear}"
  then show "thrown (solve env ticks s0)
              = Some (thrown_literal
                  ''The chosen particle-particle contact force model is invalid'')"
    using solve_thrown [OF assms, of env ticks] by (simp add: configuration_error_pp)
next
  assume "mesh_type p \<in> {gmsh, dealii}"
    "insertion_info_insertion_method p \<in> {uniform, non_uniform}
      \<and> model_parameters_integration_method p \<in> {velocity_verlet, explicit_euler}
      \<and> model_parameters_pp_contact_force_method p \<in> {pp_linear, pp_nonlinear}
      \<and> model_parameters_pw_contact_force_method p \<notin> {pw_linear, pw_nonlinear}"
  then show "thrown (solve env ticks s0)
              = Some (thrown_literal
                  ''The chosen particle-wall contact force model is invalid'')"
    using solve_thrown [OF assms, of env ticks] by (simp add: configuration_error_pw)
next
  assume ok: "mesh_type p \<in> {gmsh, dealii}"
    "insertion_info_insertion_method p \<in> {uniform, non_uniform}
      \<and> model_parameters_integration_method p \<in> {velocity_verlet, explicit_euler}
      \<and> model_parameters_pp_contact_force_method p \<in> {pp_linear, pp_nonlinear}
      \<and> model_parameters_pw_contact_force_method p \<in> {pw_linear, pw_nonlinear}"
  then have none: "configuration_error p = None"
    by (simp only: configuration_error_None_iff simp_thms)
  let ?P = "\<lambda>t tr. \<forall>e \<in> set (map fst tr).
       (\<forall>m. e = Insert m \<longrightarrow> m = chosen_insertion p)
     \<and> (\<forall>m. e = Integrate m \<longrightarrow> m = chosen_integrator p)
     \<and> (\<forall>m. e = Calculate_pp_contact_force m \<longrightarrow> m = chosen_pp_contact_force p)
     \<and> (\<forall>m. e = Calculate_pw_contact_force m \<longrightarrow> m = chosen_pw_contact_force p)"
  have "\<And>s t. ready ndim p s \<Longrightarrow> ?P t (log (timestep env t (s\<lparr>log := []\<rparr>)))"
    unfolding timestep_events by (intro ballI step_calls_strategies)
  from solve_steps [OF assms, of ?P env ticks, OF this] none
  have thr: "thrown (solve env ticks s0) = None"
    and len: "length (timesteps (solve env ticks s0)) = length ticks"
    and rdy: "ready ndim p (final (solve env ticks s0))"
    and all: "\<forall>i < length ticks. ?P (ticks ! i) (timesteps (solve env ticks s0) ! i)"
    by simp_all
  show "thrown (solve env ticks s0) = None" by (rule thr)
  show "length (timesteps (solve env ticks s0)) = length ticks" by (rule len)
  show "insertion_object (final (solve env ticks s0))
          = Some (if insertion_info_insertion_method p = uniform
                  then UniformInsertion else NonUniformInsertion)"
    using rdy ok(2) by (auto simp add: ready_def chosen_insertion_def)
  show "integrator_object (final (solve env ticks s0))
          = Some (if model_parameters_integration_method p = velocity_verlet
                  then VelocityVerletIntegrator else ExplicitEulerIntegrator)"
    using rdy ok(2) by (auto simp add: ready_def chosen_integrator_def)
  show "pp_contact_force_object (final (solve env ticks s0))
          = Some (if model_parameters_pp_contact_force_method p = pp_linear
                  then PPLinearForce else PPNonLinearForce)"
    using rdy ok(2) by (auto simp add: ready_def chosen_pp_contact_force_def)
  show "pw_contact_force_object (final (solve env ticks s0))
          = Some (if model_parameters_pw_contact_force_method p = pw_linear
                  then PWLinearForce else PWNonLinearForce)"
    using rdy ok(2) by (auto simp add: ready_def chosen_pw_contact_force_def)
  show "\<forall>i < length ticks. \<forall>e \<in> set (map fst (timesteps (solve env ticks s0) ! i)).
          (\<forall>m. e = Insert m \<longrightarrow> m = insertion_object (final (solve env ticks s0)))
        \<and> (\<forall>m. e = Integrate m \<longrightarrow> m = integrator_object (final (solve env ticks s0)))
        \<and> (\<forall>m. e = Calculate_pp_contact_force m \<longrightarrow>
               m = pp_contact_force_object (final (solve env ticks s0)))
        \<and> (\<forall>m. e = Calculate_pw_contact_force m \<longrightarrow>
               m = pw_contact_force_object (final (solve env ticks s0)))"
    using all rdy unfolding ready_def by simp
qed


theorem C7_strategy_selection_witness:
  "thrown (solve no_effect [example_tick 2 False]
             ((example_solver 3 2 2 2 [])\<lparr>parameters := other_insertion_parameters\<rparr>))
     = Some (thrown_literal ''The chosen insertion method is invalid'')
   \<and> timesteps (solve no_effect [example_tick 2 False]
             ((example_solver 3 2 2 2 [])\<lparr>parameters := other_insertion_parameters\<rparr>)) = []
   \<and> thrown (solve no_effect [example_tick 2 False] (example_solver 3 2 2 2 [])) = None
   \<and> insertion_object (final (solve no_effect [example_tick 2 False]
                                 (example_solver 3 2 2 2 []))) = Some UniformInsertion"
  using C7_strategy_selection [OF DEMSolver_other_insertion,
          where env = no_effect and ticks = "[example_tick 2 False]"]
        C7_strategy_selection [OF DEMSolver_example_2 [of 3 2],
          where env = no_effect and ticks = "[example_tick 2 False]"]
  by (simp add: other_insertion_parameters_def example_parameters_def)

subsection \<open>Repartition\<close>







end
